theory Spec2Isabelle
  imports Complex_Main "HOL-Library.Sublist"
begin

section \<open>Python numerics used by the services\<close>

text \<open>
  A Python float is the real number it denotes and a Python int is an \<open>int\<close>.
  \<open>round(x, n)\<close> on a float rounds to the nearest multiple of \<open>10^-n\<close>, a tie going to
  the even neighbour. The classifier, the demand score and the heatmap grid are
  computed in exact real arithmetic; the tiled search and the percent cells of the CSV
  export round every operation to a double.
\<close>

definition round_half_even :: "real \<Rightarrow> int" where
  "round_half_even x =
     (let f = \<lfloor>x\<rfloor>; d = x - of_int f
      in if d < 1 / 2 then f else if 1 / 2 < d then f + 1 else if even f then f else f + 1)"

definition py_round :: "real \<Rightarrow> nat \<Rightarrow> real" where
  "py_round x n = of_int (round_half_even (x * 10 ^ n)) / 10 ^ n"

section \<open>Binary floating point\<close>

text \<open>
  Where a result depends on how a float operation rounds, the operation is modelled as
  the exact operation followed by \<open>fl\<close>, rounding to the nearest IEEE 754 double with
  ties to even: 53 significant bits, exponents from \<open>-1022\<close> (shared by the subnormal
  numbers) to \<open>1023\<close>. \<open>fexp a\<close> is the exponent of a magnitude \<open>a\<close>, found by counting
  up or down from \<open>0\<close>. Magnitudes from \<open>2^1024\<close> on, where a double overflows, are outside
  the model.
\<close>

fun exp_up :: "nat \<Rightarrow> real \<Rightarrow> int \<Rightarrow> int" where
  "exp_up 0 a e = e"
| "exp_up (Suc n) a e = (if power_int 2 (e + 1) \<le> a then exp_up n a (e + 1) else e)"

fun exp_down :: "nat \<Rightarrow> real \<Rightarrow> int \<Rightarrow> int" where
  "exp_down 0 a e = e"
| "exp_down (Suc n) a e = (if a < power_int 2 e then exp_down n a (e - 1) else e)"

definition fexp :: "real \<Rightarrow> int" where
  "fexp a = (if 1 \<le> a then exp_up 1023 a 0 else exp_down 1022 a 0)"

definition fl :: "real \<Rightarrow> real" where
  "fl x = (let ulp = power_int 2 (fexp \<bar>x\<bar> - 52)
           in of_int (round_half_even (x / ulp)) * ulp)"

definition fmul :: "real \<Rightarrow> real \<Rightarrow> real" where
  "fmul x y = fl (x * y)"

definition fdiv :: "real \<Rightarrow> real \<Rightarrow> real" where
  "fdiv x y = fl (x / y)"



text \<open>Decimal digits of a natural number, and the format specification \<open>.0f\<close>.\<close>

definition digit_char :: "nat \<Rightarrow> char" where
  "digit_char d = ''0123456789'' ! (d mod 10)"

fun digits_of :: "nat \<Rightarrow> string" where
  "digits_of n = (if n < 10 then [digit_char n] else digits_of (n div 10) @ [digit_char n])"

definition format_0f :: "real \<Rightarrow> string" where
  "format_0f x = (if x < 0 then ''-'' else '''') @ digits_of (nat (round_half_even \<bar>x\<bar>))"

section \<open>Python strings\<close>

text \<open>
  A string is a list of characters with code points below 256. On these, \<open>str.lower\<close>
  maps the letters \<open>A\<close> to \<open>Z\<close> and the upper-case letters from \<open>0xC0\<close> to \<open>0xDE\<close>
  (all but the multiplication sign \<open>0xD7\<close>) to the character 32 places on; \<open>str.split\<close>
  and \<open>\s\<close> take the ASCII white space, the separators \<open>0x1C\<close> to \<open>0x1F\<close>, \<open>0x85\<close> and
  \<open>0xA0\<close> as white space; \<open>\d\<close> and, also under \<open>re.IGNORECASE\<close>, \<open>[a-zA-Z]\<close> match
  ASCII characters only.
\<close>

definition upper_to_lower :: "(char \<times> char) list" where
  "upper_to_lower =
     zip ''ABCDEFGHIJKLMNOPQRSTUVWXYZ'' ''abcdefghijklmnopqrstuvwxyz'' @
     zip [CHR 0xC0, CHR 0xC1, CHR 0xC2, CHR 0xC3, CHR 0xC4, CHR 0xC5, CHR 0xC6, CHR 0xC7,
          CHR 0xC8, CHR 0xC9, CHR 0xCA, CHR 0xCB, CHR 0xCC, CHR 0xCD, CHR 0xCE, CHR 0xCF,
          CHR 0xD0, CHR 0xD1, CHR 0xD2, CHR 0xD3, CHR 0xD4, CHR 0xD5, CHR 0xD6,
          CHR 0xD8, CHR 0xD9, CHR 0xDA, CHR 0xDB, CHR 0xDC, CHR 0xDD, CHR 0xDE]
         [CHR 0xE0, CHR 0xE1, CHR 0xE2, CHR 0xE3, CHR 0xE4, CHR 0xE5, CHR 0xE6, CHR 0xE7,
          CHR 0xE8, CHR 0xE9, CHR 0xEA, CHR 0xEB, CHR 0xEC, CHR 0xED, CHR 0xEE, CHR 0xEF,
          CHR 0xF0, CHR 0xF1, CHR 0xF2, CHR 0xF3, CHR 0xF4, CHR 0xF5, CHR 0xF6,
          CHR 0xF8, CHR 0xF9, CHR 0xFA, CHR 0xFB, CHR 0xFC, CHR 0xFD, CHR 0xFE]"

definition lower_char :: "char \<Rightarrow> char" where
  "lower_char c = (case map_of upper_to_lower c of None \<Rightarrow> c | Some l \<Rightarrow> l)"

definition lower :: "string \<Rightarrow> string" where
  "lower s = map lower_char s"

definition is_space :: "char \<Rightarrow> bool" where
  "is_space c = (c \<in> set [CHR '' '', CHR 0x09, CHR 0x0A, CHR 0x0B, CHR 0x0C, CHR 0x0D,
                           CHR 0x1C, CHR 0x1D, CHR 0x1E, CHR 0x1F, CHR 0x85, CHR 0xA0])"

definition is_digit :: "char \<Rightarrow> bool" where
  "is_digit c = (c \<in> set ''0123456789'')"

definition is_alpha :: "char \<Rightarrow> bool" where
  "is_alpha c = (c \<in> set ''abcdefghijklmnopqrstuvwxyzABCDEFGHIJKLMNOPQRSTUVWXYZ'')"

text \<open>\<open>sub in s\<close>: \<open>sub\<close> occurs in \<open>s\<close> as a contiguous substring.\<close>

fun py_in :: "string \<Rightarrow> string \<Rightarrow> bool" where
  "py_in sub [] = (sub = [])"
| "py_in sub (c # cs) = (prefix sub (c # cs) \<or> py_in sub cs)"

fun endswith :: "string \<Rightarrow> string \<Rightarrow> bool" where
  "endswith s ext = suffix ext s"

text \<open>\<open>s.split()\<close>: the maximal runs of non-whitespace characters.\<close>

fun split_ws :: "string \<Rightarrow> string \<Rightarrow> string list" where
  "split_ws cur [] = (if cur = [] then [] else [cur])"
| "split_ws cur (c # cs) =
     (if is_space c then (if cur = [] then split_ws [] cs else cur # split_ws [] cs)
      else split_ws (cur @ [c]) cs)"

definition py_split :: "string \<Rightarrow> string list" where
  "py_split s = split_ws [] s"

section \<open>The Place row (app/db/models.py)\<close>

record place =
  id_col :: nat
  place_id :: string
  name :: "string option"
  formatted_address :: "string option"
  latitude :: "real option"
  longitude :: "real option"
  rating :: "real option"
  user_ratings_total :: "int option"
  formatted_phone_number :: "string option"
  website :: "string option"
  opening_hours :: "(bool option \<times> string list) option"
  address_components :: "string list option"
  types :: "string list option"
  business_status :: "string option"
  price_level :: "int option"
  classification :: "string option"
  classification_confidence :: "real option"
  location_score :: "real option"
  competitor_density :: "real option"
  search_query :: "string option"
  search_location :: "string option"
  created_at :: "nat option"
  updated_at :: "nat option"
  enriched_at :: "nat option"

section \<open>Stage 3: the classifier (app/services/classifier.py)\<close>

definition KNOWN_BRANDS :: "string list" where
  "KNOWN_BRANDS =
    [''mcdonald'', ''starbucks'', ''subway'', ''burger king'', ''kfc'', ''pizza hut'',
     ''domino'', ''dunkin'', ''tim hortons'', ''wendy'', ''taco bell'', ''chick-fil-a'',
     ''papa john'', ''popeye'', ''five guys'', ''shake shack'', ''chipotle'',
     ''walmart'', ''target'', ''costco'', ''ikea'', ''h&m'', ''zara'', ''uniqlo'',
     ''nike'', ''adidas'', ''apple'', ''samsung'', ''microsoft'', ''google'',
     ''amazon'', ''carrefour'', ''lulu'', ''spinneys'', ''choithrams'', ''al maya'',
     ''hardee'', ''baskin robbins'', ''cold stone'', ''costa coffee'', ''caribou'',
     ''nando'', ''applebee'', ''chili'', ''olive garden'', ''outback'',
     ''marriott'', ''hilton'', ''hyatt'', ''sheraton'', ''radisson'', ''ibis'',
     ''holiday inn'', ''best western'', ''four seasons'', ''ritz carlton'',
     ''7-eleven'', ''circle k'', ''shell'', ''bp'', ''total'', ''adnoc'', ''enoc'']"

text \<open>
  \<open>CHAIN_PATTERNS\<close> is the regular expression
  \<^verbatim>\<open>(franchise|chain|branch|outlet|store\s*#?\d|unit\s*\d|location\s*\d)\<close>, compiled with
  \<open>re.IGNORECASE\<close>. \<open>digit_follows hash s\<close> is the tail \<^verbatim>\<open>\s*#?\d\<close> (with \<open>hash\<close>) or
  \<^verbatim>\<open>\s*\d\<close> (without): neither a shorter whitespace run nor skipping a present \<open>#\<close>
  can reach a digit, so the greedy choice is the only one.
\<close>

definition digit_follows :: "bool \<Rightarrow> string \<Rightarrow> bool" where
  "digit_follows hash s =
     (case dropWhile is_space s of
        [] \<Rightarrow> False
      | c # cs \<Rightarrow>
          if hash \<and> c = CHR ''#'' then (case cs of [] \<Rightarrow> False | d # _ \<Rightarrow> is_digit d)
          else is_digit c)"

definition chain_match_here :: "string \<Rightarrow> bool" where
  "chain_match_here s =
     (let l = lower s
      in prefix ''franchise'' l \<or> prefix ''chain'' l \<or> prefix ''branch'' l \<or> prefix ''outlet'' l
         \<or> (prefix ''store'' l \<and> digit_follows True (drop 5 s))
         \<or> (prefix ''unit'' l \<and> digit_follows False (drop 4 s))
         \<or> (prefix ''location'' l \<and> digit_follows False (drop 8 s)))"

fun CHAIN_PATTERNS_search :: "string \<Rightarrow> bool" where
  "CHAIN_PATTERNS_search [] = False"
| "CHAIN_PATTERNS_search (c # cs) = (chain_match_here (c # cs) \<or> CHAIN_PATTERNS_search cs)"

definition BRAND_DOMAIN_INDICATORS :: "string list" where
  "BRAND_DOMAIN_INDICATORS = [''.com'', ''.co'', ''.global'', ''.international'', ''.inc'']"

definition country_tlds :: "string list" where
  "country_tlds = [''.ae'', ''.uk'', ''.in'', ''.ph'', ''.pk'']"

definition brand_types :: "string list" where
  "brand_types = [''shopping_mall'', ''department_store'', ''supermarket'', ''gas_station'']"

definition local_types :: "string list" where
  "local_types = [''cafe'', ''bakery'', ''hair_care'', ''laundry'', ''florist'']"

definition name_lower :: "place \<Rightarrow> string" where
  "name_lower p = lower (case name p of None \<Rightarrow> '''' | Some n \<Rightarrow> n)"

text \<open>The seven signals, in the order in which \<open>classify\<close> adds them to \<open>score\<close>.\<close>

definition signal_brand_name :: "place \<Rightarrow> real" where
  "signal_brand_name p = (if list_ex (\<lambda>brand. py_in brand (name_lower p)) KNOWN_BRANDS then 1.0 else 0)"

definition signal_reviews :: "place \<Rightarrow> real" where
  "signal_reviews p =
     (case user_ratings_total p of
        None \<Rightarrow> 0
      | Some n \<Rightarrow> if n = 0 then 0
                  else if n > 1000 then 0.8 else if n > 500 then 0.5 else if n > 100 then 0.2 else 0)"

definition text_to_check :: "place \<Rightarrow> string" where
  "text_to_check p =
     (case name p of None \<Rightarrow> ''None'' | Some n \<Rightarrow> n) @ '' '' @
     (case formatted_address p of None \<Rightarrow> '''' | Some a \<Rightarrow> a)"

definition signal_chain :: "place \<Rightarrow> real" where
  "signal_chain p = (if CHAIN_PATTERNS_search (text_to_check p) then 0.7 else 0)"

definition signal_website :: "place \<Rightarrow> real" where
  "signal_website p =
     (case website p of
        None \<Rightarrow> 0
      | Some w \<Rightarrow>
          if w = [] then 0
          else (let domain = lower w
                in (if list_ex (\<lambda>ind. py_in ind domain) BRAND_DOMAIN_INDICATORS then 0.3 else 0)
                 - (if list_ex (\<lambda>tld. py_in tld domain) country_tlds then 0.2 else 0)))"

definition signal_price :: "place \<Rightarrow> real" where
  "signal_price p = (case price_level p of None \<Rightarrow> 0 | Some _ \<Rightarrow> 0.15)"

definition signal_types :: "place \<Rightarrow> real" where
  "signal_types p =
     (let ts = (case types p of None \<Rightarrow> [] | Some ts \<Rightarrow> ts)
      in (if list_ex (\<lambda>t. t \<in> set brand_types) ts then 0.4 else 0)
       - (if list_ex (\<lambda>t. t \<in> set local_types) ts then 0.3 else 0))"

definition signal_words :: "place \<Rightarrow> real" where
  "signal_words p =
     (let words = py_split (name_lower p)
      in if length words \<le> 3 then 0.1 else if length words \<ge> 6 then - 0.1 else 0)"

definition score :: "place \<Rightarrow> real" where
  "score p = signal_brand_name p + signal_reviews p + signal_chain p + signal_website p
           + signal_price p + signal_types p + signal_words p"

definition classify :: "place \<Rightarrow> string \<times> real" where
  "classify p =
     (let max_possible = 3.45;
          confidence = max 0.0 (min 1.0 (score p / max_possible));
          classification = (if confidence \<ge> 0.30 then ''brand'' else ''local'')
      in (classification, py_round confidence 3))"

section \<open>Stage 5: the demand sub-score (app/services/scoring.py)\<close>

definition demand_score :: "place \<Rightarrow> real" where
  "demand_score p =
     (let reviews = (case user_ratings_total p of None \<Rightarrow> 0 | Some n \<Rightarrow> n)
      in if reviews \<le> 0 then 0.0
         else py_round (min 1.0 (log 10 (of_int reviews + 1) / 4.0)) 4)"

section \<open>CSV export: the two percent cells (app/api/routes.py)\<close>

text \<open>
  A Python float is falsy exactly when it is zero, so the conditional expression
  \<^verbatim>\<open>f"{v * 100:.0f}" if v else ""\<close> yields the empty string for \<open>None\<close> and for \<open>0.0\<close>.
\<close>

definition percent_cell :: "real option \<Rightarrow> string" where
  "percent_cell v =
     (case v of None \<Rightarrow> '''' | Some x \<Rightarrow> if x \<noteq> 0 then format_0f (fmul x 100) else '''')"

definition confidence_cell :: "place \<Rightarrow> string" where
  "confidence_cell p = percent_cell (classification_confidence p)"

definition location_score_cell :: "place \<Rightarrow> string" where
  "location_score_cell p = percent_cell (location_score p)"

text \<open>The same cell under a null check, for comparison.\<close>

definition percent_cell_not_none :: "real option \<Rightarrow> string" where
  "percent_cell_not_none v = (case v of None \<Rightarrow> '''' | Some x \<Rightarrow> format_0f (fmul x 100))"

definition example_place :: place where
  "example_place =
     \<lparr>id_col = 1, place_id = ''ChIJ1'', name = Some ''Test Place'',
      formatted_address = Some ''123 Test St'', latitude = None, longitude = None,
      rating = None, user_ratings_total = None, formatted_phone_number = None,
      website = None, opening_hours = None, address_components = None, types = Some [],
      business_status = None, price_level = None, classification = None,
      classification_confidence = None, location_score = None, competitor_density = None,
      search_query = None, search_location = None, created_at = None, updated_at = None,
      enriched_at = None\<rparr>"

section \<open>Errors and outcomes\<close>

text \<open>
  A Python exception is a value. \<open>exc\<close> lists the exception classes the services
  distinguish; an \<open>outcome\<close> is what one awaited call yields.
\<close>

datatype exc = HTTPStatusError | ConnectError | ConnectTimeout | ReadTimeout
  | ZeroDivisionError | OtherError

datatype 'a outcome = Returns 'a | Raises exc

text \<open>\<open>math.ceil\<close> and \<open>int\<close> (truncation towards zero) on a float.\<close>

definition py_ceil :: "real \<Rightarrow> int" where
  "py_ceil x = \<lceil>x\<rceil>"


definition py_range :: "int \<Rightarrow> int list" where
  "py_range n = map int [0..<nat n]"

section \<open>Stage 4: the heatmap grid (app/services/heatmap.py)\<close>

text \<open>
  The grid of \<open>compute_heatmap\<close>: the final \<open>grid_size\<close>, \<open>lat_steps\<close> and \<open>lng_steps\<close>,
  and the south-west corner, rounded to six decimals, of every cell the two nested
  loops produce. A float division by zero raises.
\<close>

definition heatmap_grid :: "real \<Rightarrow> real \<Rightarrow> real \<Rightarrow> real \<Rightarrow> real \<Rightarrow> (real \<times> int \<times> int) outcome" where
  "heatmap_grid lat_min lat_max lng_min lng_max grid_size =
     (if grid_size = 0 then Raises ZeroDivisionError
      else
        let lat_steps = py_ceil ((lat_max - lat_min) / grid_size);
            lng_steps = py_ceil ((lng_max - lng_min) / grid_size);
            total_cells = lat_steps * lng_steps
        in if total_cells > 10000 then
             (let grid_size' = max ((lat_max - lat_min) / 100) ((lng_max - lng_min) / 100)
              in if grid_size' = 0 then Raises ZeroDivisionError
                 else Returns (grid_size',
                               py_ceil ((lat_max - lat_min) / grid_size'),
                               py_ceil ((lng_max - lng_min) / grid_size')))
           else Returns (grid_size, lat_steps, lng_steps))"

definition heatmap_cells :: "real \<Rightarrow> real \<Rightarrow> real \<Rightarrow> int \<Rightarrow> int \<Rightarrow> (real \<times> real) list" where
  "heatmap_cells lat_min lng_min grid_size lat_steps lng_steps =
     concat (map (\<lambda>i. map (\<lambda>j. (py_round (lat_min + of_int i * grid_size) 6,
                                     py_round (lng_min + of_int j * grid_size) 6))
                            (py_range lng_steps))
                 (py_range lat_steps))"

definition compute_heatmap :: "real \<Rightarrow> real \<Rightarrow> real \<Rightarrow> real \<Rightarrow> real \<Rightarrow> (real \<times> real) list outcome" where
  "compute_heatmap lat_min lat_max lng_min lng_max grid_size =
     (case heatmap_grid lat_min lat_max lng_min lng_max grid_size of
        Raises e \<Rightarrow> Raises e
      | Returns (g, lat_steps, lng_steps) \<Rightarrow>
          Returns (heatmap_cells lat_min lng_min g lat_steps lng_steps))"

section \<open>Stage 1: the provider's place object and the tiled search (app/services/places_client.py)\<close>

text \<open>
  A place object of the provider, with the fields of the field mask. An absent key is
  \<open>None\<close>; \<open>displayName\<close> is an object with an optional \<open>text\<close>, \<open>location\<close> an object with
  optional coordinates, \<open>regularOpeningHours\<close> an object with optional \<open>openNow\<close> and
  \<open>weekdayDescriptions\<close>.
\<close>

record raw_place =
  rp_id :: "string option"
  rp_displayName :: "string option option"
  rp_formattedAddress :: "string option"
  rp_location :: "(real option \<times> real option) option"
  rp_rating :: "real option"
  rp_userRatingCount :: "int option"
  rp_nationalPhoneNumber :: "string option"
  rp_websiteUri :: "string option"
  rp_regularOpeningHours :: "(bool option \<times> string list option) option"
  rp_addressComponents :: "string list option"
  rp_types :: "string list option"
  rp_businessStatus :: "string option"
  rp_priceLevel :: "string option"

text \<open>\<open>raw.get("id", "")\<close>\<close>

definition get_id :: "raw_place \<Rightarrow> string" where
  "get_id raw = (case rp_id raw of None \<Rightarrow> '''' | Some i \<Rightarrow> i)"











definition raw_example :: "string \<Rightarrow> raw_place" where
  "raw_example i =
     \<lparr>rp_id = Some i, rp_displayName = Some (Some ''New Name''), rp_formattedAddress = None,
      rp_location = None, rp_rating = None, rp_userRatingCount = None,
      rp_nationalPhoneNumber = None, rp_websiteUri = None, rp_regularOpeningHours = None,
      rp_addressComponents = None, rp_types = None, rp_businessStatus = None,
      rp_priceLevel = Some ''PRICE_LEVEL_MODERATE''\<rparr>"





section \<open>Stage 2: email extraction (app/services/enrichment.py)\<close>

text \<open>
  \<open>EMAIL_REGEX\<close> is \<^verbatim>\<open>[a-zA-Z0-9._%+\-]+@[a-zA-Z0-9.\-]+\.[a-zA-Z]{2,}\<close>. \<open>is_local\<close> and
  \<open>is_dom\<close> are its first two character classes.
\<close>

definition is_local :: "char \<Rightarrow> bool" where
  "is_local c = (is_alpha c \<or> is_digit c \<or> c \<in> set ''._%+-'')"

definition is_dom :: "char \<Rightarrow> bool" where
  "is_dom c = (is_alpha c \<or> is_digit c \<or> c \<in> set ''.-'')"

text \<open>
  The backtracking of \<^verbatim>\<open>[a-zA-Z0-9.\-]+\.[a-zA-Z]{2,}\<close> inside a maximal run of domain
  characters: the greedy class gives characters back one at a time, so the match ends
  at the last dot (not the first character of the run) that at least two letters
  follow, and takes all the letters after it. \<open>pre\<close> is the part of the run already
  passed; the result is the matched text.
\<close>

fun match_domain :: "string \<Rightarrow> string \<Rightarrow> string option" where
  "match_domain pre [] = None"
| "match_domain pre (c # cs) =
     (case match_domain (pre @ [c]) cs of
        Some m \<Rightarrow> Some m
      | None \<Rightarrow>
          if pre \<noteq> [] \<and> c = CHR ''.'' \<and> length (takeWhile is_alpha cs) \<ge> 2
          then Some (pre @ [c] @ takeWhile is_alpha cs)
          else None)"

text \<open>
  A match of \<open>EMAIL_REGEX\<close> at the start of \<open>s\<close>. The local part is the maximal run of
  local characters: a shorter one would have to be followed by \<open>@\<close>, and is followed by
  a local character.
\<close>

definition match_email :: "string \<Rightarrow> string option" where
  "match_email s =
     (let loc = takeWhile is_local s
      in if loc = [] then None
         else (case dropWhile is_local s of
                 [] \<Rightarrow> None
               | c # r \<Rightarrow>
                   if c \<noteq> CHR ''@'' then None
                   else (case match_domain [] (takeWhile is_dom r) of
                           None \<Rightarrow> None
                         | Some d \<Rightarrow> Some (loc @ [c] @ d))))"

text \<open>
  \<open>EMAIL_REGEX.findall\<close>: scan from the left; where the pattern matches, report the
  match and resume after it (\<open>skip\<close> counts the characters of the match still to
  pass), otherwise move on by one character.
\<close>

fun findall_from :: "nat \<Rightarrow> string \<Rightarrow> string list" where
  "findall_from skip [] = []"
| "findall_from (Suc skip) (c # cs) = findall_from skip cs"
| "findall_from 0 (c # cs) =
     (case match_email (c # cs) of
        Some m \<Rightarrow> m # findall_from (length m - 1) cs
      | None \<Rightarrow> findall_from 0 cs)"

definition EMAIL_REGEX_findall :: "string \<Rightarrow> string list" where
  "EMAIL_REGEX_findall html = findall_from 0 html"

definition EXCLUDED_EMAIL_PATTERNS :: "string list" where
  "EXCLUDED_EMAIL_PATTERNS =
     [''example.com'', ''domain.com'', ''email.com'', ''test.com'',
      ''yoursite.com'', ''website.com'', ''sentry.io'', ''wixpress.com'']"

definition image_extensions :: "string list" where
  "image_extensions = [''.png'', ''.jpg'', ''.jpeg'', ''.gif'', ''.svg'', ''.webp'']"

text \<open>\<open>s.split(sep)\<close> for a one-character separator.\<close>

fun split_on :: "char \<Rightarrow> string \<Rightarrow> string \<Rightarrow> string list" where
  "split_on sep cur [] = [cur]"
| "split_on sep cur (c # cs) =
     (if c = sep then cur # split_on sep [] cs else split_on sep (cur @ [c]) cs)"

text \<open>\<open>email_lower.split("@")[1] if "@" in email_lower else ""\<close>\<close>

definition email_domain :: "string \<Rightarrow> string" where
  "email_domain email_lower =
     (if CHR ''@'' \<in> set email_lower
      then (case split_on (CHR ''@'') [] email_lower of _ # d # _ \<Rightarrow> d | _ \<Rightarrow> [])
      else [])"

definition is_image_name :: "string \<Rightarrow> bool" where
  "is_image_name email_lower = list_ex (\<lambda>ext. endswith email_lower ext) image_extensions"

definition is_excluded :: "string \<Rightarrow> bool" where
  "is_excluded email_lower =
     list_ex (\<lambda>exc. py_in exc (email_domain email_lower)) EXCLUDED_EMAIL_PATTERNS"

text \<open>
  The loop of \<open>_extract_emails\<close> over the set \<open>raw\<close>. A Python set is a list without
  repetitions here; \<open>cleaned.add\<close> appends a new element only.
\<close>

fun clean_loop :: "string list \<Rightarrow> string list \<Rightarrow> string list" where
  "clean_loop [] cleaned = cleaned"
| "clean_loop (email # rest) cleaned =
     (let email_lower = lower email
      in if is_image_name email_lower then clean_loop rest cleaned
         else if is_excluded email_lower then clean_loop rest cleaned
         else clean_loop rest (if email_lower \<in> set cleaned then cleaned else cleaned @ [email_lower]))"

definition extract_emails :: "string \<Rightarrow> string list" where
  "extract_emails html = clean_loop (remdups (EMAIL_REGEX_findall html)) []"

definition html_example :: string where
  "html_example = ''info@shop.com INFO@SHOP.COM logo@2x.png user@example.com''"

definition html_subdomains :: string where
  "html_subdomains = ''user@mail.example.com admin@sub.test.com''"

section \<open>Retrying provider calls (app/services/places_client.py)\<close>

text \<open>
  Both provider calls are wrapped in the retry decorator of the tenacity library with
  \<open>stop_after_attempt(settings.enrichment_max_retries)\<close>,
  \<open>wait_exponential(multiplier=1, min=2, max=30)\<close>,
  \<open>retry_if_exception_type((httpx.HTTPStatusError, httpx.ConnectError))\<close> and
  \<open>reraise=True\<close>. The decorator is library code; the loop below is its documented
  behaviour. After a failed attempt, an exception that the retry predicate rejects is raised
  at once; otherwise, if the attempt number has reached the cap, the last exception
  is raised again; otherwise the loop sleeps and runs the next attempt.
  \<open>body n\<close> is what attempt number \<open>n\<close> of the wrapped function does; the result carries
  the number of attempts made and the sleeps between them, in seconds.
\<close>

definition wait_exponential :: "nat \<Rightarrow> nat \<Rightarrow> nat \<Rightarrow> nat" where
  "wait_exponential wait_min wait_max attempt_number =
     max (max 0 wait_min) (min (1 * 2 ^ (attempt_number - 1)) wait_max)"

function retry_loop :: "(exc \<Rightarrow> bool) \<Rightarrow> nat \<Rightarrow> (nat \<Rightarrow> nat) \<Rightarrow> (nat \<Rightarrow> 'a outcome) \<Rightarrow> nat \<Rightarrow> nat list
    \<Rightarrow> 'a outcome \<times> nat \<times> nat list" where
  "retry_loop retry_on max_attempt_number wait body attempt_number slept =
     (case body attempt_number of
        Returns v \<Rightarrow> (Returns v, attempt_number, slept)
      | Raises e \<Rightarrow>
          if \<not> retry_on e then (Raises e, attempt_number, slept)
          else if attempt_number \<ge> max_attempt_number then (Raises e, attempt_number, slept)
          else retry_loop retry_on max_attempt_number wait body (Suc attempt_number)
                 (slept @ [wait attempt_number]))"
  by pat_completeness auto
termination
  by (relation "measure (\<lambda>(retry_on, max_attempt_number, wait, body, attempt_number, slept).
        max_attempt_number - attempt_number)") auto

definition provider_retry_on :: "exc \<Rightarrow> bool" where
  "provider_retry_on e = (e = HTTPStatusError \<or> e = ConnectError)"

definition provider_call :: "nat \<Rightarrow> (nat \<Rightarrow> 'a outcome) \<Rightarrow> 'a outcome \<times> nat \<times> nat list" where
  "provider_call enrichment_max_retries body =
     retry_loop provider_retry_on enrichment_max_retries (wait_exponential 2 30) body 1 []"

text \<open>
  What the HTTP client gives one attempt: an exception of the transport, or a response.
  \<open>raises_for_status\<close> says whether \<open>resp.raise_for_status()\<close> raises; the body is
  \<open>None\<close> when the decoded JSON has an \<open>error\<close> key.
\<close>

datatype 'a http_result = TransportError exc | HttpResponse (raises_for_status: bool) "'a option"

definition text_search_page_attempt :: "'a http_result \<Rightarrow> 'a outcome" where
  "text_search_page_attempt r =
     (case r of
        TransportError e \<Rightarrow> Raises e
      | HttpResponse bad body \<Rightarrow>
          if bad then Raises HTTPStatusError
          else (case body of None \<Rightarrow> Raises HTTPStatusError | Some data \<Rightarrow> Returns data))"

definition text_search_page :: "nat \<Rightarrow> (nat \<Rightarrow> 'a http_result) \<Rightarrow> 'a outcome \<times> nat \<times> nat list" where
  "text_search_page enrichment_max_retries client_post =
     provider_call enrichment_max_retries (\<lambda>n. text_search_page_attempt (client_post n))"

text \<open>
  \<open>get_place_details\<close>: an id in the session cache returns the empty object (\<open>None\<close>)
  without a request, and so does a body with an \<open>error\<close> key; only a delivered object
  enters the cache.
\<close>

definition get_place_details_attempt :: "string set \<Rightarrow> string \<Rightarrow> raw_place http_result
    \<Rightarrow> raw_place option outcome" where
  "get_place_details_attempt cache pid r =
     (if pid \<in> cache then Returns None
      else (case r of
              TransportError e \<Rightarrow> Raises e
            | HttpResponse bad body \<Rightarrow>
                if bad then Raises HTTPStatusError
                else (case body of None \<Rightarrow> Returns None | Some data \<Rightarrow> Returns (Some data))))"

definition get_place_details :: "nat \<Rightarrow> string set \<Rightarrow> string \<Rightarrow> (nat \<Rightarrow> raw_place http_result)
    \<Rightarrow> (raw_place option outcome \<times> nat \<times> nat list) \<times> string set" where
  "get_place_details enrichment_max_retries cache pid client_get =
     (let run = provider_call enrichment_max_retries
                  (\<lambda>n. get_place_details_attempt cache pid (client_get n))
      in (run, case fst run of Returns (Some data) \<Rightarrow> insert pid cache | _ \<Rightarrow> cache))"

text \<open>Example behaviours of the provider: every request fails in the same way.\<close>

definition always_status_error :: "nat \<Rightarrow> raw_place list http_result" where
  "always_status_error n = HttpResponse True None"

definition always_read_timeout :: "nat \<Rightarrow> raw_place list http_result" where
  "always_read_timeout n = TransportError ReadTimeout"

definition details_status_error :: "nat \<Rightarrow> raw_place http_result" where
  "details_status_error n = HttpResponse True None"

definition details_read_timeout :: "nat \<Rightarrow> raw_place http_result" where
  "details_read_timeout n = TransportError ReadTimeout"

definition connect_errors_then_page :: "nat \<Rightarrow> raw_place list http_result" where
  "connect_errors_then_page n =
     (if n < 3 then TransportError ConnectError else HttpResponse False (Some [raw_example ''a'']))"

section \<open>Stage 2: enriching one place (app/services/enrichment.py)\<close>

text \<open>
  The dictionary \<open>enrichment_data\<close>, the rows of \<open>place_enrichments\<close> and \<open>place_emails\<close>,
  and the database session as far as \<open>enrich_place\<close> uses it: the rows it sees, and
  how often \<open>db.commit()\<close> was called.
\<close>

record enrichment_data =
  homepage_status_code :: "int option"
  homepage_title :: "string option"
  contact_page_url :: "string option"
  robots_txt_allows :: "bool option"
  enrichment_error :: "string option"

record place_enrichment = enrichment_data +
  pe_place_id :: nat

record place_email =
  em_place_id :: nat
  em_email :: string
  em_source :: string

record session =
  enrichments :: "place_enrichment list"
  emails :: "place_email list"
  commits :: nat

definition commit :: "session \<Rightarrow> session" where
  "commit db = db\<lparr>commits := Suc (commits db)\<rparr>"

text \<open>
  The web as the enricher meets it: the robots setting, what the request for
  \<open>robots.txt\<close> of a site gives, what attempt \<open>n\<close> of fetching a URL gives, the two
  HTML analyses done by the parser library, and the text of an exception.
\<close>

datatype robots_result = RobotsFailed | RobotsResponse int bool

record web =
  respect_robots_txt :: bool
  robots_get :: "string \<Rightarrow> robots_result"
  http_get :: "string \<Rightarrow> nat \<Rightarrow> (int \<times> string) outcome"
  extract_title :: "string \<Rightarrow> string option"
  find_contact_page :: "string \<Rightarrow> string \<Rightarrow> string option"
  str_exc :: "exc \<Rightarrow> string"

text \<open>
  \<open>_check_robots\<close>: allowed unless the setting is on, the request answers 200 and the
  parsed policy refuses the bot; any exception means allowed.
\<close>

definition check_robots :: "web \<Rightarrow> string \<Rightarrow> bool" where
  "check_robots w base_url =
     (if \<not> respect_robots_txt w then True
      else (case robots_get w base_url of
              RobotsResponse status can_fetch \<Rightarrow> if status = 200 then can_fetch else True
            | RobotsFailed \<Rightarrow> True))"

text \<open>
  \<open>_fetch_page\<close>: at most two attempts, retried on \<open>ConnectError\<close> and \<open>ReadTimeout\<close>,
  with \<open>wait_exponential(multiplier=1, min=1, max=5)\<close>.
\<close>

definition fetch_retry_on :: "exc \<Rightarrow> bool" where
  "fetch_retry_on e = (e = ConnectError \<or> e = ReadTimeout)"

definition fetch_page :: "web \<Rightarrow> string \<Rightarrow> (int \<times> string) outcome \<times> nat \<times> nat list" where
  "fetch_page w url = retry_loop fetch_retry_on 2 (wait_exponential 1 5) (http_get w url) 1 []"

text \<open>\<open>_save_enrichment\<close>: upsert the enrichment row, then add the emails not yet stored.\<close>

definition overwrite :: "enrichment_data \<Rightarrow> place_enrichment \<Rightarrow> place_enrichment" where
  "overwrite d row =
     row\<lparr>homepage_status_code := homepage_status_code d,
         homepage_title := homepage_title d,
         contact_page_url := contact_page_url d,
         robots_txt_allows := robots_txt_allows d,
         enrichment_error := enrichment_error d\<rparr>"

definition new_enrichment :: "nat \<Rightarrow> enrichment_data \<Rightarrow> place_enrichment" where
  "new_enrichment place_db_id d =
     \<lparr>homepage_status_code = homepage_status_code d,
      homepage_title = homepage_title d,
      contact_page_url = contact_page_url d,
      robots_txt_allows = robots_txt_allows d,
      enrichment_error = enrichment_error d,
      pe_place_id = place_db_id\<rparr>"

fun add_emails :: "nat \<Rightarrow> (string \<times> string) list \<Rightarrow> place_email list \<Rightarrow> place_email list" where
  "add_emails place_db_id [] rows = rows"
| "add_emails place_db_id ((email, source) # rest) rows =
     (if list_ex (\<lambda>r. em_place_id r = place_db_id \<and> em_email r = email) rows
      then add_emails place_db_id rest rows
      else add_emails place_db_id rest
             (rows @ [\<lparr>em_place_id = place_db_id, em_email = email, em_source = source\<rparr>]))"

definition save_enrichment :: "session \<Rightarrow> nat \<Rightarrow> enrichment_data \<Rightarrow> (string \<times> string) list \<Rightarrow> session" where
  "save_enrichment db place_db_id d all_emails =
     db\<lparr>enrichments :=
          (case find (\<lambda>r. pe_place_id r = place_db_id) (enrichments db) of
             Some existing \<Rightarrow>
               map (\<lambda>r. if pe_place_id r = place_db_id then overwrite d r else r) (enrichments db)
           | None \<Rightarrow> enrichments db @ [new_enrichment place_db_id d]),
        emails := add_emails place_db_id all_emails (emails db)\<rparr>"

text \<open>The contact-page emails are added to the dictionary only under a new key.\<close>

fun merge_contact :: "(string \<times> string) list \<Rightarrow> string list \<Rightarrow> (string \<times> string) list" where
  "merge_contact all_emails [] = all_emails"
| "merge_contact all_emails (e # es) =
     (if e \<in> set (map fst all_emails) then merge_contact all_emails es
      else merge_contact (all_emails @ [(e, ''contact_page'')]) es)"

definition empty_enrichment_data :: enrichment_data where
  "empty_enrichment_data =
     \<lparr>homepage_status_code = None, homepage_title = None, contact_page_url = None,
      robots_txt_allows = None, enrichment_error = None\<rparr>"

text \<open>
  The body of the \<open>try\<close> block after the robots check when crawling is allowed: the
  enrichment data, the emails found and the URLs requested through \<open>_fetch_page\<close>, one
  entry per attempt. An exception of the homepage fetch is caught by the outer handler
  and recorded, truncated to 500 characters; one of the contact-page fetch is logged.
\<close>

definition crawl :: "web \<Rightarrow> string \<Rightarrow> enrichment_data
    \<Rightarrow> enrichment_data \<times> (string \<times> string) list \<times> string list" where
  "crawl w site d =
     (case fetch_page w site of
        (Raises e, n, slept) \<Rightarrow>
          (d\<lparr>enrichment_error := Some (take 500 (str_exc w e))\<rparr>, [], replicate n site)
      | (Returns (status, html), n, slept) \<Rightarrow>
          (let d1 = d\<lparr>homepage_status_code := Some status\<rparr>
           in if status = 200 \<and> html \<noteq> [] then
                (let d2 = d1\<lparr>homepage_title := extract_title w html\<rparr>;
                     all_emails = map (\<lambda>e. (e, ''homepage'')) (extract_emails html)
                 in case find_contact_page w html site of
                      None \<Rightarrow> (d2, all_emails, replicate n site)
                    | Some contact_url \<Rightarrow>
                        if contact_url = [] then (d2, all_emails, replicate n site)
                        else
                          (let d3 = d2\<lparr>contact_page_url := Some contact_url\<rparr>
                           in case fetch_page w contact_url of
                                (Returns (cp_status, cp_html), m, cp_slept) \<Rightarrow>
                                  (d3,
                                   if cp_status = 200 \<and> cp_html \<noteq> []
                                   then merge_contact all_emails (extract_emails cp_html)
                                   else all_emails,
                                   replicate n site @ replicate m contact_url)
                              | (Raises e, m, cp_slept) \<Rightarrow>
                                  (d3, all_emails, replicate n site @ replicate m contact_url)))
              else (d1, [], replicate n site)))"

text \<open>
  \<open>enrich_place\<close> at time \<open>now\<close>: the session, the place and the URLs requested through
  \<open>_fetch_page\<close>. The robots branch saves, stamps and returns; the common exit saves,
  stamps and commits.
\<close>

definition enrich_place :: "web \<Rightarrow> session \<Rightarrow> place \<Rightarrow> nat \<Rightarrow> session \<times> place \<times> string list" where
  "enrich_place w db p now =
     (case website p of
        None \<Rightarrow> (db, p, [])
      | Some site \<Rightarrow>
          if site = [] then (db, p, [])
          else
            (let allowed = check_robots w site;
                 d = empty_enrichment_data\<lparr>robots_txt_allows := Some allowed\<rparr>
             in if \<not> allowed then
                  (save_enrichment db (id_col p)
                     (d\<lparr>enrichment_error := Some ''Blocked by robots.txt''\<rparr>) [],
                   p\<lparr>enriched_at := Some now\<rparr>,
                   [])
                else
                  (case crawl w site d of
                     (d', all_emails, fetched) \<Rightarrow>
                       (commit (save_enrichment db (id_col p) d' all_emails),
                        p\<lparr>enriched_at := Some now\<rparr>,
                        fetched))))"

text \<open>Two sites: one whose \<open>robots.txt\<close> refuses the bot, one that serves a page.\<close>

definition site_page :: "string \<Rightarrow> nat \<Rightarrow> (int \<times> string) outcome" where
  "site_page url n = Returns (200, ''<title>Shop</title> mail: Info@Shop.ae'')"

definition blocking_web :: web where
  "blocking_web =
     \<lparr>respect_robots_txt = True, robots_get = (\<lambda>url. RobotsResponse 200 False),
      http_get = site_page, extract_title = (\<lambda>html. Some ''Shop''),
      find_contact_page = (\<lambda>html url. None), str_exc = (\<lambda>e. ''error'')\<rparr>"

definition open_web :: web where
  "open_web = blocking_web\<lparr>robots_get := (\<lambda>url. RobotsResponse 200 True)\<rparr>"

definition empty_session :: session where
  "empty_session = \<lparr>enrichments = [], emails = [], commits = 0\<rparr>"

definition shop :: place where
  "shop = example_place\<lparr>website := Some ''https://shop.ae''\<rparr>"

section \<open>Stage 1: normalising and upserting places (app/services/places_client.py)\<close>

definition PRICE_LEVEL_MAP :: "(string \<times> int) list" where
  "PRICE_LEVEL_MAP =
     [(''PRICE_LEVEL_FREE'', 0), (''PRICE_LEVEL_INEXPENSIVE'', 1), (''PRICE_LEVEL_MODERATE'', 2),
      (''PRICE_LEVEL_EXPENSIVE'', 3), (''PRICE_LEVEL_VERY_EXPENSIVE'', 4)]"

text \<open>The flat dictionary that \<open>_normalize_place\<close> returns.\<close>

record details =
  d_place_id :: string
  d_name :: string
  d_formatted_address :: "string option"
  d_latitude :: "real option"
  d_longitude :: "real option"
  d_rating :: "real option"
  d_user_ratings_total :: "int option"
  d_formatted_phone_number :: "string option"
  d_website :: "string option"
  d_opening_hours :: "(bool option \<times> string list) option"
  d_address_components :: "string list option"
  d_types :: "string list option"
  d_business_status :: "string option"
  d_price_level :: "int option"

definition normalize_place :: "raw_place \<Rightarrow> details" where
  "normalize_place raw =
     (let opening_dict =
            (case rp_regularOpeningHours raw of
               None \<Rightarrow> None
             | Some (open_now, weekday) \<Rightarrow>
                 if open_now = None \<and> weekday = None then None
                 else Some (open_now, case weekday of None \<Rightarrow> [] | Some ds \<Rightarrow> ds));
          price_int =
            (case rp_priceLevel raw of
               None \<Rightarrow> None
             | Some price_str \<Rightarrow> if price_str = [] then None else map_of PRICE_LEVEL_MAP price_str)
      in \<lparr>d_place_id = get_id raw,
          d_name = (case rp_displayName raw of Some (Some t) \<Rightarrow> t | _ \<Rightarrow> ''''),
          d_formatted_address = rp_formattedAddress raw,
          d_latitude = (case rp_location raw of None \<Rightarrow> None | Some (la, lo) \<Rightarrow> la),
          d_longitude = (case rp_location raw of None \<Rightarrow> None | Some (la, lo) \<Rightarrow> lo),
          d_rating = rp_rating raw,
          d_user_ratings_total = rp_userRatingCount raw,
          d_formatted_phone_number = rp_nationalPhoneNumber raw,
          d_website = rp_websiteUri raw,
          d_opening_hours = opening_dict,
          d_address_components = rp_addressComponents raw,
          d_types = rp_types raw,
          d_business_status = rp_businessStatus raw,
          d_price_level = price_int\<rparr>)"

text \<open>
  The \<open>places\<close> table: its rows and the next value of the id sequence.
\<close>

record places_db =
  place_rows :: "place list"
  next_id :: nat

text \<open>\<open>select(Place).where(Place.place_id == gp_id)\<close>, \<open>scalar_one_or_none\<close>\<close>

definition select_by_place_id :: "places_db \<Rightarrow> string \<Rightarrow> place option" where
  "select_by_place_id db gp_id = find (\<lambda>r. place_id r = gp_id) (place_rows db)"

text \<open>The \<open>Place(...)\<close> object built from the normalised details; its id is set later.\<close>

definition new_place :: "string \<Rightarrow> details \<Rightarrow> string \<Rightarrow> string option \<Rightarrow> place" where
  "new_place gp_id ds query location =
     \<lparr>id_col = 0, place_id = gp_id, name = Some (d_name ds),
      formatted_address = d_formatted_address ds, latitude = d_latitude ds,
      longitude = d_longitude ds, rating = d_rating ds,
      user_ratings_total = d_user_ratings_total ds,
      formatted_phone_number = d_formatted_phone_number ds, website = d_website ds,
      opening_hours = d_opening_hours ds, address_components = d_address_components ds,
      types = d_types ds, business_status = d_business_status ds,
      price_level = d_price_level ds, classification = None,
      classification_confidence = None, location_score = None, competitor_density = None,
      search_query = Some query, search_location = location, created_at = None,
      updated_at = None, enriched_at = None\<rparr>"

text \<open>The \<open>set_\<close> of \<open>on_conflict_do_update\<close>, applied to the stored row.\<close>

definition conflict_update :: "place \<Rightarrow> nat \<Rightarrow> place \<Rightarrow> place" where
  "conflict_update p now row =
     row\<lparr>name := name p, formatted_address := formatted_address p, latitude := latitude p,
         longitude := longitude p, rating := rating p,
         user_ratings_total := user_ratings_total p,
         formatted_phone_number := formatted_phone_number p, website := website p,
         opening_hours := opening_hours p, address_components := address_components p,
         types := types p, business_status := business_status p,
         price_level := price_level p, updated_at := Some now\<rparr>"

text \<open>
  \<open>INSERT ... ON CONFLICT (place_id) DO UPDATE ... RETURNING id\<close>: a new row gets the
  next id and both timestamps; a row with the same \<open>place_id\<close> is updated in place.
\<close>

definition insert_on_conflict_do_update :: "places_db \<Rightarrow> place \<Rightarrow> nat \<Rightarrow> places_db \<times> nat" where
  "insert_on_conflict_do_update db p now =
     (case select_by_place_id db (place_id p) of
        None \<Rightarrow>
          (db\<lparr>place_rows := place_rows db
                 @ [p\<lparr>id_col := next_id db, created_at := Some now, updated_at := Some now\<rparr>],
              next_id := Suc (next_id db)\<rparr>,
           next_id db)
      | Some existing \<Rightarrow>
          (db\<lparr>place_rows := map (\<lambda>r. if place_id r = place_id p then conflict_update p now r else r)
                                (place_rows db)\<rparr>,
           id_col existing))"

text \<open>
  The loop of \<open>upsert_places\<close>. \<open>get_details\<close> is \<open>client.get_place_details\<close> as the loop
  sees it: it raises, returns the empty object (\<open>None\<close>) or returns the place object.
\<close>

fun upsert_loop :: "(string \<Rightarrow> raw_place option outcome) \<Rightarrow> string \<Rightarrow> string option \<Rightarrow> nat
    \<Rightarrow> raw_place list \<Rightarrow> places_db \<times> place list \<Rightarrow> places_db \<times> place list" where
  "upsert_loop get_details query location now [] st = st"
| "upsert_loop get_details query location now (raw # rest) (db, places) =
     (let gp_id = get_id raw
      in if gp_id = [] then upsert_loop get_details query location now rest (db, places)
         else
           (case select_by_place_id db gp_id of
              Some existing_place \<Rightarrow>
                upsert_loop get_details query location now rest (db, places @ [existing_place])
            | None \<Rightarrow>
                (let details_raw =
                       (case get_details gp_id of
                          Raises e \<Rightarrow> raw
                        | Returns None \<Rightarrow> raw
                        | Returns (Some fetched) \<Rightarrow> fetched);
                     p = new_place gp_id (normalize_place details_raw) query location
                 in case insert_on_conflict_do_update db p now of
                      (db', place_id_db) \<Rightarrow>
                        upsert_loop get_details query location now rest
                          (db', places @ [p\<lparr>id_col := place_id_db\<rparr>]))))"

definition upsert_places :: "(string \<Rightarrow> raw_place option outcome) \<Rightarrow> places_db \<Rightarrow> raw_place list
    \<Rightarrow> string \<Rightarrow> string option \<Rightarrow> nat \<Rightarrow> places_db \<times> place list" where
  "upsert_places get_details db raw_results query location now =
     (case upsert_loop get_details query location now raw_results (db, []) of
        (db', places) \<Rightarrow>
          (db', if places = [] then []
                else filter (\<lambda>r. id_col r \<in> set (map id_col places)) (place_rows db')))"

text \<open>A stored listing, and a provider that delivers details under a new name.\<close>

definition stored_place :: place where
  "stored_place =
     example_place\<lparr>id_col := 1, place_id := ''p1'', name := Some ''Old Name'',
       search_query := Some ''cafes'', created_at := Some 10, updated_at := Some 10\<rparr>"

definition one_place_db :: places_db where
  "one_place_db = \<lparr>place_rows = [stored_place], next_id = 2\<rparr>"

definition details_delivered :: "string \<Rightarrow> raw_place option outcome" where
  "details_delivered gp_id = Returns (Some (raw_example gp_id))"

text \<open>The external ids stored in the table.\<close>

definition stored_ids :: "places_db \<Rightarrow> string set" where
  "stored_ids db = place_id ` set (place_rows db)"

section \<open>Auxiliary notions for the proofs\<close>

definition twentieths :: "int \<Rightarrow> int \<Rightarrow> real \<Rightarrow> bool" where
  "twentieths a b x = (\<exists>k. a \<le> k \<and> k \<le> b \<and> x = of_int k / 20)"

definition confidence_of :: "place \<Rightarrow> real" where
  "confidence_of p = max 0 (min 1 (score p / 3.45))"

section \<open>Properties of the floating-point rounding\<close>

lemma exp_up_spec:
  "power_int 2 e \<le> a \<Longrightarrow> a < power_int 2 (e + int n + 1)
   \<Longrightarrow> power_int 2 (exp_up n a e) \<le> a \<and> a < power_int 2 (exp_up n a e + 1)
       \<and> e \<le> exp_up n a e \<and> exp_up n a e \<le> e + int n"
proof (induction n arbitrary: e)
  case 0
  then show ?case by simp
next
  case (Suc n)
  show ?case
  proof (cases "power_int 2 (e + 1) \<le> a")
    case True
    from Suc.prems(2) have "a < power_int 2 (e + 1 + int n + 1)"
      by (simp add: add.commute add.left_commute)
    from Suc.IH [OF True this] True show ?thesis by auto
  next
    case False
    with Suc.prems show ?thesis by auto
  qed
qed

lemma exp_down_spec:
  "a < power_int 2 (e + 1) \<Longrightarrow> power_int 2 (e - int n) \<le> a
   \<Longrightarrow> power_int 2 (exp_down n a e) \<le> a \<and> a < power_int 2 (exp_down n a e + 1)
       \<and> e - int n \<le> exp_down n a e \<and> exp_down n a e \<le> e"
proof (induction n arbitrary: e)
  case 0
  then show ?case by simp
next
  case (Suc n)
  show ?case
  proof (cases "a < power_int 2 e")
    case True
    from Suc.prems(2) have "power_int 2 (e - 1 - int n) \<le> a"
      by (simp add: algebra_simps)
    from Suc.IH [of "e - 1"] True this show ?thesis by auto
  next
    case False
    with Suc.prems show ?thesis by auto
  qed
qed

lemma fexp_spec:
  assumes "power_int 2 (- 1022) \<le> a" "a < power_int 2 1024"
  shows "power_int 2 (fexp a) \<le> a \<and> a < power_int 2 (fexp a + 1)
         \<and> - 1022 \<le> fexp a \<and> fexp a \<le> 1023"
proof (cases "1 \<le> a")
  case True
  have "power_int 2 0 \<le> a" using True by simp
  moreover have "a < power_int 2 (0 + int 1023 + 1)" using assms(2) by simp
  ultimately show ?thesis
    using exp_up_spec [of 0 a 1023] True by (simp add: fexp_def)
next
  case False
  have "a < power_int 2 (0 + 1)" using False by simp
  moreover have "power_int 2 (0 - int 1022) \<le> a" using assms(1) by simp
  ultimately show ?thesis
    using exp_down_spec [of a 0 1022] False by (simp add: fexp_def)
qed

lemma power_int_2_less_imp: "power_int (2::real) e < power_int 2 e' \<Longrightarrow> e < e'"
  using power_int_le_imp_less_exp [of 2 e e'] power_int_increasing [of e' e "2::real"]
  by (cases "e < e'") auto

lemma fexp_unique:
  assumes "power_int 2 e \<le> a" "a < power_int 2 (e + 1)" "- 1022 \<le> e" "e \<le> 1023"
  shows "fexp a = e"
proof -
  have lo: "power_int 2 (- 1022) \<le> a"
    using power_int_increasing [of "- 1022" e "2::real"] assms(1,3) by simp
  have hi: "a < power_int 2 1024"
    using power_int_increasing [of "e + 1" 1024 "2::real"] assms(2,4) by simp
  note s = fexp_spec [OF lo hi]
  from s assms(2) have "power_int (2::real) (fexp a) < power_int 2 (e + 1)" by linarith
  then have "fexp a < e + 1" by (rule power_int_2_less_imp)
  moreover from s assms(1) have "power_int (2::real) e < power_int 2 (fexp a + 1)" by linarith
  then have "e < fexp a + 1" by (rule power_int_2_less_imp)
  ultimately show ?thesis by simp
qed

text \<open>Rounding a number whose exponent is known.\<close>

lemma fl_eval:
  assumes "power_int 2 e \<le> \<bar>x\<bar>" "\<bar>x\<bar> < power_int 2 (e + 1)" "- 1022 \<le> e" "e \<le> 1023"
  shows "fl x = of_int (round_half_even (x / power_int 2 (e - 52))) * power_int 2 (e - 52)"
  by (simp add: fl_def Let_def fexp_unique [OF assms])




lemma fl_zero: "fl 0 = 0"
  by (simp add: fl_def round_half_even_def)




section \<open>Properties of the numeric helpers\<close>

lemma round_half_even_mono:
  assumes "x \<le> y"
  shows "round_half_even x \<le> round_half_even y"
proof (cases "\<lfloor>x\<rfloor> = \<lfloor>y\<rfloor>")
  case True
  then show ?thesis
    using assms by (auto simp: round_half_even_def Let_def)
next
  case False
  with assms have "\<lfloor>x\<rfloor> + 1 \<le> \<lfloor>y\<rfloor>"
    using floor_mono [of x y] by linarith
  moreover have "round_half_even x \<le> \<lfloor>x\<rfloor> + 1"
    by (auto simp: round_half_even_def Let_def)
  moreover have "\<lfloor>y\<rfloor> \<le> round_half_even y"
    by (auto simp: round_half_even_def Let_def)
  ultimately show ?thesis by linarith
qed

lemma round_half_even_of_int: "round_half_even (of_int k) = k"
  by (simp add: round_half_even_def)

lemma py_round_mono: "x \<le> y \<Longrightarrow> py_round x n \<le> py_round y n"
  by (simp add: py_round_def round_half_even_mono divide_right_mono)

lemma py_round_0: "py_round 0 n = 0"
  by (simp add: py_round_def round_half_even_def)

lemma py_round_1: "py_round 1 n = 1"
proof -
  have "round_half_even (10 ^ n) = 10 ^ n"
    using round_half_even_of_int [of "10 ^ n"] by simp
  then show ?thesis by (simp add: py_round_def)
qed

lemma py_round_unit: "0 \<le> x \<Longrightarrow> x \<le> 1 \<Longrightarrow> 0 \<le> py_round x n \<and> py_round x n \<le> 1"
  using py_round_mono [of 0 x n] py_round_mono [of x 1 n] by (simp add: py_round_0 py_round_1)

section \<open>The classifier\<close>

text \<open>
  Every signal is a whole number of twentieths, so the score is \<open>k / 20\<close> for an integer
  \<open>k\<close> between \<open>-12\<close> and \<open>69\<close>, and the unrounded confidence is \<open>k / 69\<close> clamped.
\<close>

lemma twentiethsI: "a \<le> k \<Longrightarrow> k \<le> b \<Longrightarrow> x = of_int k / 20 \<Longrightarrow> twentieths a b x"
  by (auto simp: twentieths_def)

lemma twentieths_add:
  assumes "twentieths a b x" "twentieths c d y"
  shows "twentieths (a + c) (b + d) (x + y)"
proof -
  from assms obtain k l where "a \<le> k" "k \<le> b" "x = of_int k / 20" "c \<le> l" "l \<le> d" "y = of_int l / 20"
    by (auto simp: twentieths_def)
  then show ?thesis
    by (intro twentiethsI [of _ "k + l"]) (auto simp: add_divide_distrib)
qed

lemma signal_brand_name_range: "twentieths 0 20 (signal_brand_name p)"
  unfolding signal_brand_name_def
  by (cases "list_ex (\<lambda>brand. py_in brand (name_lower p)) KNOWN_BRANDS")
     (auto intro: twentiethsI [of _ 20] twentiethsI [of _ 0])

lemma signal_reviews_range: "twentieths 0 16 (signal_reviews p)"
  unfolding signal_reviews_def
  by (auto split: option.splits intro: twentiethsI [of _ 16] twentiethsI [of _ 10] twentiethsI [of _ 4] twentiethsI [of _ 0])

lemma signal_chain_range: "twentieths 0 14 (signal_chain p)"
  unfolding signal_chain_def
  by (auto intro: twentiethsI [of _ 14] twentiethsI [of _ 0])

lemma signal_website_range: "twentieths (- 4) 6 (signal_website p)"
  unfolding signal_website_def Let_def
  by (auto split: option.splits intro: twentiethsI [of _ 6] twentiethsI [of _ 2] twentiethsI [of _ "- 4"] twentiethsI [of _ 0])

lemma signal_price_range: "twentieths 0 3 (signal_price p)"
  unfolding signal_price_def
  by (auto split: option.splits intro: twentiethsI [of _ 3] twentiethsI [of _ 0])

lemma signal_types_range: "twentieths (- 6) 8 (signal_types p)"
  unfolding signal_types_def Let_def
  by (auto split: option.splits intro: twentiethsI [of _ 8] twentiethsI [of _ 2] twentiethsI [of _ "- 6"] twentiethsI [of _ 0])

lemma signal_words_range: "twentieths (- 2) 2 (signal_words p)"
  unfolding signal_words_def Let_def
  by (auto intro: twentiethsI [of _ 2] twentiethsI [of _ "- 2"] twentiethsI [of _ 0])

lemma score_range: "twentieths (- 12) 69 (score p)"
proof -
  have "twentieths (0 + 0 + 0 + (- 4) + 0 + (- 6) + (- 2)) (20 + 16 + 14 + 6 + 3 + 8 + 2) (score p)"
    unfolding score_def
    by (intro twentieths_add signal_brand_name_range signal_reviews_range signal_chain_range
        signal_website_range signal_price_range signal_types_range signal_words_range)
  then show ?thesis by simp
qed

lemma py_round_21: "py_round (21 / 69) 3 = 304 / 1000"
  by (simp add: py_round_def round_half_even_def Let_def)

lemma py_round_20: "py_round (20 / 69) 3 = 290 / 1000"
  by (simp add: py_round_def round_half_even_def Let_def)

text \<open>
  The label is decided on the unrounded confidence, the returned confidence is rounded.
  The two agree on the threshold: no \<open>k / 69\<close> lies in \<open>[0.2995, 0.30)\<close>.
\<close>

lemma threshold_after_rounding:
  "(confidence_of p \<ge> 0.30) = (py_round (confidence_of p) 3 \<ge> 0.30)"
proof -
  from score_range [of p] obtain k :: int where k: "score p = of_int k / 20"
    by (auto simp: twentieths_def)
  have c: "confidence_of p = max 0 (min 1 (of_int k / 69))"
    by (simp add: confidence_of_def k)
  show ?thesis
  proof (cases "21 \<le> k")
    case True
    then have "(21::real) \<le> of_int k" by linarith
    then have ge: "21 / 69 \<le> confidence_of p"
      by (simp add: c)
    have "py_round (21 / 69) 3 \<le> py_round (confidence_of p) 3"
      by (rule py_round_mono [OF ge])
    then have "304 / 1000 \<le> py_round (confidence_of p) 3"
      unfolding py_round_21 .
    with ge show ?thesis by simp
  next
    case False
    then have "of_int k \<le> (20::real)" by linarith
    then have le: "confidence_of p \<le> 20 / 69"
      by (simp add: c)
    have "py_round (confidence_of p) 3 \<le> py_round (20 / 69) 3"
      by (rule py_round_mono [OF le])
    then have "py_round (confidence_of p) 3 \<le> 290 / 1000"
      unfolding py_round_20 .
    with le show ?thesis by simp
  qed
qed

text \<open>
  Claim C1. For every listing, \<open>classify\<close> returns the confidence
  \<open>clamp(score / 3.45, 0, 1)\<close> rounded to three decimals, which lies in \<open>[0, 1]\<close>, and a
  label that is \<open>brand\<close> or \<open>local\<close>; the label is \<open>brand\<close> exactly when the returned
  confidence is at least \<open>0.30\<close>.
\<close>

theorem classify_confidence_and_label:
  "snd (classify p) = py_round (max 0 (min 1 (score p / 3.45))) 3
   \<and> 0 \<le> snd (classify p) \<and> snd (classify p) \<le> 1
   \<and> fst (classify p) \<in> {''brand'', ''local''}
   \<and> (fst (classify p) = ''brand'') = (snd (classify p) \<ge> 0.30)"
proof -
  have s: "snd (classify p) = py_round (confidence_of p) 3"
    by (simp add: classify_def confidence_of_def Let_def)
  have f: "fst (classify p) = (if confidence_of p \<ge> 0.30 then ''brand'' else ''local'')"
    by (simp add: classify_def confidence_of_def Let_def)
  have u: "0 \<le> confidence_of p" "confidence_of p \<le> 1"
    by (simp_all add: confidence_of_def)
  have "(fst (classify p) = ''brand'') = (confidence_of p \<ge> 0.30)"
    by (simp add: f)
  then have "(fst (classify p) = ''brand'') = (snd (classify p) \<ge> 0.30)"
    using threshold_after_rounding [of p] s by simp
  moreover have "fst (classify p) \<in> {''brand'', ''local''}"
    by (simp add: f)
  moreover have "0 \<le> snd (classify p) \<and> snd (classify p) \<le> 1"
    using py_round_unit [OF u] s by simp
  moreover have "snd (classify p) = py_round (max 0 (min 1 (score p / 3.45))) 3"
    by (simp add: s confidence_of_def)
  ultimately show ?thesis by blast
qed

section \<open>The demand sub-score\<close>

lemma demand_score_Some:
  "demand_score (p\<lparr>user_ratings_total := Some n\<rparr>) =
     (if n \<le> 0 then 0 else py_round (min 1 (log 10 (of_int n + 1) / 4)) 4)"
  by (simp add: demand_score_def)

lemma demand_score_bounds: "0 \<le> demand_score p \<and> demand_score p \<le> 1"
proof (cases "(case user_ratings_total p of None \<Rightarrow> 0 | Some n \<Rightarrow> n) \<le> 0")
  case True
  then show ?thesis by (simp add: demand_score_def)
next
  case False
  define r where "r = (case user_ratings_total p of None \<Rightarrow> 0 | Some n \<Rightarrow> n)"
  with False have r: "0 < r" by simp
  then have "0 \<le> log 10 (of_int r + 1)" by simp
  then have "0 \<le> min 1 (log 10 (of_int r + 1) / 4)" "min 1 (log 10 (of_int r + 1) / 4) \<le> 1"
    by simp_all
  from py_round_unit [OF this, of 4] show ?thesis
    using r by (simp add: demand_score_def r_def)
qed

lemma demand_score_mono:
  assumes "n \<le> m"
  shows "demand_score (p\<lparr>user_ratings_total := Some n\<rparr>) \<le> demand_score (p\<lparr>user_ratings_total := Some m\<rparr>)"
proof (cases "n \<le> 0")
  case True
  then show ?thesis
    using demand_score_bounds [of "p\<lparr>user_ratings_total := Some m\<rparr>"]
    by (simp add: demand_score_Some)
next
  case False
  with assms have pos: "0 < n" "0 < m" by simp_all
  with assms have "log 10 (of_int n + 1) \<le> log 10 (of_int m + 1)"
    by simp
  then have "min 1 (log 10 (of_int n + 1) / 4) \<le> min 1 (log 10 (of_int m + 1) / 4)"
    by simp
  from py_round_mono [OF this, of 4] show ?thesis
    using pos by (simp add: demand_score_Some)
qed

text \<open>
  Claim C8, as amended. The demand sub-score is \<open>0\<close> when the review count is absent or
  not positive, and otherwise \<open>min(1, log10(reviews + 1) / 4)\<close> rounded to four decimals;
  it is monotonically non-decreasing in the review count and never exceeds \<open>1\<close>.
\<close>

theorem demand_score_rounded_monotone_capped:
  "demand_score (p\<lparr>user_ratings_total := None\<rparr>) = 0
   \<and> (n \<le> 0 \<longrightarrow> demand_score (p\<lparr>user_ratings_total := Some n\<rparr>) = 0)
   \<and> (0 < n \<longrightarrow> demand_score (p\<lparr>user_ratings_total := Some n\<rparr>)
                   = py_round (min 1 (log 10 (of_int n + 1) / 4)) 4)
   \<and> (n \<le> m \<longrightarrow> demand_score (p\<lparr>user_ratings_total := Some n\<rparr>)
                     \<le> demand_score (p\<lparr>user_ratings_total := Some m\<rparr>))
   \<and> demand_score p \<le> 1"
  using demand_score_mono [of n m p] demand_score_bounds [of p]
  by (simp add: demand_score_Some) (simp add: demand_score_def)

text \<open>The amended claim C8 at 9, 99 and -5 reviews.\<close>

theorem demand_score_rounded_monotone_capped_witness:
  "(9::int) \<le> 99 \<and> (0::int) < 9
   \<and> demand_score (example_place\<lparr>user_ratings_total := Some 9\<rparr>) = 1 / 4
   \<and> demand_score (example_place\<lparr>user_ratings_total := Some 9\<rparr>)
       \<le> demand_score (example_place\<lparr>user_ratings_total := Some 99\<rparr>)
   \<and> (- 5 :: int) \<le> 0
   \<and> demand_score (example_place\<lparr>user_ratings_total := Some (- 5)\<rparr>) = 0"
proof -
  have "py_round (min 1 (log 10 (of_int 9 + 1) / 4)) 4 = 1 / 4"
    by (simp add: py_round_def round_half_even_def)
  then show ?thesis
    using demand_score_rounded_monotone_capped [of example_place 9 99]
      demand_score_rounded_monotone_capped [of example_place "- 5" 0]
    by simp
qed

text \<open>
  \<open>log10(3) / 4\<close> is not a multiple of \<open>10^-4\<close>: otherwise \<open>3 ^ 2500\<close> would be a
  positive power of ten, and it is odd.
\<close>

lemma three_pow_not_ten_pow: "0 < j \<Longrightarrow> (3::nat) ^ n \<noteq> 10 ^ j"
proof
  assume j: "0 < j" and eq: "(3::nat) ^ n = 10 ^ j"
  have "odd ((3::nat) ^ n)" by simp
  moreover have "even ((10::nat) ^ j)" using j by simp
  ultimately show False using eq by simp
qed

lemma log_3_multiple_not_int:
  assumes K: "of_int K = real n * log 10 3" and n: "0 < n"
  shows False
proof -
  have "0 < log 10 (3::real)" by simp
  with n have "0 < real n * log 10 3" by simp
  with K have "0 < (of_int K :: real)" by simp
  then have Kpos: "0 < K" by simp
  define j where "j = nat K"
  with Kpos have j: "0 < j" "of_int K = (of_nat j :: real)" by simp_all
  have "log 10 ((3::real) ^ n) = real n * log 10 3"
    by (rule log_nat_power) simp
  with K j have "log 10 ((3::real) ^ n) = of_nat j" by simp
  then have "(10::real) powr (log 10 (3 ^ n)) = 10 powr (of_nat j)" by simp
  then have "(3::real) ^ n = 10 ^ j"
    by (simp add: powr_realpow)
  then have "real ((3::nat) ^ n) = real (10 ^ j)" by simp
  then have "(3::nat) ^ n = 10 ^ j" by (rule of_nat_eq_iff [THEN iffD1])
  with three_pow_not_ten_pow [OF j(1)] show False by simp
qed

lemma log_3_quarter_not_rounded: "py_round (log 10 3 / 4) 4 \<noteq> log 10 3 / 4"
proof
  assume eq: "py_round (log 10 3 / 4) 4 = log 10 3 / 4"
  define K where "K = round_half_even (log 10 3 / 4 * 10 ^ 4)"
  from eq have "of_int K / 10 ^ 4 = log 10 3 / 4"
    by (simp add: py_round_def K_def)
  then have "of_int K = real 2500 * log 10 3" by simp
  then show False by (rule log_3_multiple_not_int) simp
qed

text \<open>
  Claim C8 as stated fails at two reviews: the code returns the rounded value, which
  differs from \<open>min(1, log10(3) / 4)\<close>.
\<close>

theorem demand_score_unrounded_counterexample:
  "demand_score (example_place\<lparr>user_ratings_total := Some 2\<rparr>) \<noteq> min 1 (log 10 (2 + 1) / 4)"
proof -
  have "log 10 (3::real) \<le> log 10 10" by (subst log_le_cancel_iff) simp_all
  then have "log 10 (3::real) \<le> 1" by simp
  then have "log 10 (3::real) / 4 \<le> 1" by linarith
  then have m: "min 1 (log 10 (3::real) / 4) = log 10 3 / 4" by simp
  show ?thesis
    using log_3_quarter_not_rounded by (simp add: demand_score_Some m)
qed

section \<open>The CSV export\<close>

text \<open>
  Claim C9. For a listing whose stored classification confidence is exactly \<open>0.0\<close> the
  \<open>Confidence %\<close> cell is the empty string, and likewise the \<open>Location Score %\<close> cell for
  a location score of exactly \<open>0.0\<close>, because the formatting is guarded by the truthiness
  of the value; under a null check the cell would read \<open>0\<close>.
\<close>

theorem csv_zero_percent_cells_blank:
  "confidence_cell (p\<lparr>classification_confidence := Some 0\<rparr>) = ''''
   \<and> location_score_cell (p\<lparr>location_score := Some 0\<rparr>) = ''''
   \<and> percent_cell_not_none (Some 0) = ''0''"
  by (simp add: confidence_cell_def location_score_cell_def percent_cell_def
      percent_cell_not_none_def fmul_def fl_zero format_0f_def round_half_even_def
      digit_char_def)

section \<open>The heatmap grid\<close>

lemma length_range: "length (py_range n) = nat n"
  by (simp add: py_range_def)

lemma length_concat_const:
  "(\<And>x. x \<in> set xs \<Longrightarrow> length (f x) = k) \<Longrightarrow> length (concat (map f xs)) = length xs * k"
  by (induction xs) simp_all

lemma length_heatmap_cells:
  "length (heatmap_cells lat_min lng_min g lat_steps lng_steps) = nat lat_steps * nat lng_steps"
  unfolding heatmap_cells_def
  by (subst length_concat_const [where k = "nat lng_steps"]) (simp_all add: length_range)

lemma ceil_quotient_le_100:
  assumes "0 < g" "a \<le> 100 * g"
  shows "py_ceil (a / g) \<le> 100"
proof -
  from assms have "a / g \<le> 100" by (simp add: pos_divide_le_eq)
  then show ?thesis unfolding py_ceil_def by (simp add: ceiling_le_iff)
qed

text \<open>
  In exact arithmetic, for a box with \<open>lat_min \<le> lat_max\<close> and \<open>lng_min \<le> lng_max\<close>
  the enlarged grid has a positive cell size and at most \<open>100 \<times> 100\<close> cells.
\<close>

lemma heatmap_cap_ordered_box:
  assumes box: "lat_min \<le> lat_max" "lng_min \<le> lng_max" and g: "0 < grid_size"
    and big: "py_ceil ((lat_max - lat_min) / grid_size) * py_ceil ((lng_max - lng_min) / grid_size) > 10000"
  shows "\<exists>cells. compute_heatmap lat_min lat_max lng_min lng_max grid_size = Returns cells
           \<and> length cells \<le> 10000"
proof -
  define a where "a = lat_max - lat_min"
  define b where "b = lng_max - lng_min"
  define g' where "g' = max (a / 100) (b / 100)"
  have ab: "0 \<le> a" "0 \<le> b" using box by (simp_all add: a_def b_def)
  have "a \<noteq> 0"
  proof
    assume "a = 0"
    with big show False by (simp add: a_def py_ceil_def)
  qed
  with ab have g'pos: "0 < g'" by (simp add: g'_def max_def)
  have "a \<le> 100 * g'" "b \<le> 100 * g'" by (simp_all add: g'_def max_def)
  with g'pos have c: "py_ceil (a / g') \<le> 100" "py_ceil (b / g') \<le> 100"
    by (simp_all add: ceil_quotient_le_100)
  from ab g'pos have "0 \<le> a / g'" "0 \<le> b / g'" by simp_all
  then have nn: "0 \<le> py_ceil (a / g')" "0 \<le> py_ceil (b / g')"
    using ceiling_mono [of 0 "a / g'"] ceiling_mono [of 0 "b / g'"]
    by (simp_all add: py_ceil_def)
  have "nat (py_ceil (a / g')) * nat (py_ceil (b / g')) \<le> 100 * 100"
    using c nn by (intro mult_mono) simp_all
  moreover have "heatmap_grid lat_min lat_max lng_min lng_max grid_size
      = Returns (g', py_ceil (a / g'), py_ceil (b / g'))"
    using g big g'pos by (simp add: heatmap_grid_def Let_def a_def b_def g'_def)
  ultimately show ?thesis
    by (simp add: compute_heatmap_def length_heatmap_cells)
qed

text \<open>
  Rounded to doubles, the quotient of a side by its hundredth can exceed \<open>100\<close>: for the
  side \<open>0.13\<close> the enlarged grid size is the double nearest to \<open>0.0013\<close>, the quotient
  rounds to \<open>100 + 2^-46\<close> and \<open>math.ceil\<close> gives \<open>101\<close> steps, so that the bound of
  \<open>100\<close> steps per side holds up to this rounding only.
\<close>

lemma heatmap_steps_in_doubles:
  "fl (13 / 100) = 1170935903116329 / 2 ^ 53
   \<and> fdiv (1170935903116329 / 2 ^ 53) 100 = 1498797955988901 / 2 ^ 60
   \<and> fdiv (1170935903116329 / 2 ^ 53) (1498797955988901 / 2 ^ 60) = 7036874417766401 / 2 ^ 46
   \<and> py_ceil (7036874417766401 / 2 ^ 46) = 101"
proof -
  have a: "fl (13 / 100) = 1170935903116329 / 2 ^ 53"
    by (subst fl_eval [of "- 3"]) (simp_all add: round_half_even_def Let_def)
  have b: "fdiv (1170935903116329 / 2 ^ 53) 100 = 1498797955988901 / 2 ^ 60"
    unfolding fdiv_def
    by (subst fl_eval [of "- 10"]) (simp_all add: round_half_even_def Let_def)
  have c: "fdiv (1170935903116329 / 2 ^ 53) (1498797955988901 / 2 ^ 60) = 7036874417766401 / 2 ^ 46"
    unfolding fdiv_def
    by (subst fl_eval [of 6]) (simp_all add: round_half_even_def Let_def)
  have d: "py_ceil (7036874417766401 / 2 ^ 46) = 101"
    by (simp add: py_ceil_def ceiling_eq_iff)
  from a b c d show ?thesis by (intro conjI)
qed

text \<open>
  Claim C5 at the box \<open>lat_min = 2, lat_max = 0, lng_min = 1, lng_max = 0\<close> with
  \<open>grid_size = 0.01\<close>: the first step counts are \<open>-200\<close> and \<open>-100\<close>, their product
  \<open>20000\<close> exceeds \<open>10000\<close>, the enlarged grid size is \<open>-0.01\<close>, and the recomputed
  loops produce \<open>200 \<times> 100 = 20000\<close> cells.
\<close>

theorem compute_heatmap_inverted_box_over_cap:
  "py_ceil ((0 - 2) / (1 / 100)) * py_ceil ((0 - 1) / (1 / 100)) = 20000
   \<and> compute_heatmap 2 0 1 0 (1 / 100) = Returns (heatmap_cells 2 1 (- (1 / 100)) 200 100)
   \<and> length (heatmap_cells 2 1 (- (1 / 100)) 200 100) = 20000"
  by (simp add: compute_heatmap_def heatmap_grid_def length_heatmap_cells py_ceil_def Let_def)

section \<open>The tiled search\<close>







































section \<open>Email extraction\<close>

lemma py_in_sublist: "py_in sub s = sublist sub s"
  by (induction s) (simp_all add: sublist_Cons_right)


lemma is_excluded_iff:
  "is_excluded x = (\<exists>exc \<in> set EXCLUDED_EMAIL_PATTERNS. sublist exc (email_domain x))"
  by (simp add: is_excluded_def list_ex_iff py_in_sublist)




text \<open>What the loop adds to \<open>cleaned\<close>, and that it keeps \<open>cleaned\<close> free of repetitions.\<close>

lemma set_clean_loop:
  "set (clean_loop raw cleaned) =
     set cleaned \<union> lower ` {e \<in> set raw. \<not> is_image_name (lower e) \<and> \<not> is_excluded (lower e)}"
  by (induction raw arbitrary: cleaned) (auto simp: Let_def)


lemma set_extract_emails:
  "set (extract_emails html) =
     lower ` {e \<in> set (EMAIL_REGEX_findall html). \<not> is_image_name (lower e) \<and> \<not> is_excluded (lower e)}"
  by (simp add: extract_emails_def set_clean_loop)

lemma findall_html_example:
  "EMAIL_REGEX_findall html_example
     = [''info@shop.com'', ''INFO@SHOP.COM'', ''logo@2x.png'', ''user@example.com'']"
  by code_simp

lemma findall_html_subdomains:
  "EMAIL_REGEX_findall html_subdomains = [''user@mail.example.com'', ''admin@sub.test.com'']"
  by code_simp


































lemma at_dot_chars:
  "\<forall>c \<in> set ''@.''.
     c \<in> set ''abcdefghijklmnopqrstuvwxyzABCDEFGHIJKLMNOPQRSTUVWXYZ0123456789._%+-@''
     \<and> lower_char c \<in> set ''abcdefghijklmnopqrstuvwxyz0123456789._%+-@''"
  by code_simp












text \<open>
  Claim C10. The exclusion is substring containment on the domain: every matched
  address whose domain contains an entry of the exclusion list as a substring is
  dropped, whether or not the full domain is itself an entry.
\<close>

theorem excluded_by_substring:
  assumes "e \<in> set (EMAIL_REGEX_findall html)"
    and "exc \<in> set EXCLUDED_EMAIL_PATTERNS"
    and "sublist exc (email_domain (lower e))"
  shows "lower e \<notin> set (extract_emails html)"
proof
  assume "lower e \<in> set (extract_emails html)"
  then obtain e' where "lower e = lower e'" "\<not> is_excluded (lower e')"
    unfolding set_extract_emails by blast
  with assms(2,3) show False by (auto simp: is_excluded_iff)
qed

text \<open>
  Claim C10 at \<open>admin@sub.test.com\<close> and \<open>user@mail.example.com\<close>: neither full domain is
  in the exclusion list, and both addresses are dropped.
\<close>

theorem excluded_by_substring_witness:
  "''admin@sub.test.com'' \<in> set (EMAIL_REGEX_findall html_subdomains)
   \<and> ''test.com'' \<in> set EXCLUDED_EMAIL_PATTERNS
   \<and> sublist ''test.com'' (email_domain (lower ''admin@sub.test.com''))
   \<and> ''sub.test.com'' \<notin> set EXCLUDED_EMAIL_PATTERNS
   \<and> ''mail.example.com'' \<notin> set EXCLUDED_EMAIL_PATTERNS
   \<and> lower ''admin@sub.test.com'' \<notin> set (extract_emails html_subdomains)
   \<and> lower ''user@mail.example.com'' \<notin> set (extract_emails html_subdomains)"
proof -
  have a: "''admin@sub.test.com'' \<in> set (EMAIL_REGEX_findall html_subdomains)"
    "''user@mail.example.com'' \<in> set (EMAIL_REGEX_findall html_subdomains)"
    by (simp_all add: findall_html_subdomains)
  have b: "''test.com'' \<in> set EXCLUDED_EMAIL_PATTERNS" "''example.com'' \<in> set EXCLUDED_EMAIL_PATTERNS"
    by (simp_all add: EXCLUDED_EMAIL_PATTERNS_def)
  have c: "sublist ''test.com'' (email_domain (lower ''admin@sub.test.com''))"
    "sublist ''example.com'' (email_domain (lower ''user@mail.example.com''))"
    by code_simp+
  have d: "''sub.test.com'' \<notin> set EXCLUDED_EMAIL_PATTERNS"
    "''mail.example.com'' \<notin> set EXCLUDED_EMAIL_PATTERNS"
    by (simp_all add: EXCLUDED_EMAIL_PATTERNS_def)
  from excluded_by_substring [OF a(1) b(1) c(1)] excluded_by_substring [OF a(2) b(2) c(2)] a b c d
  show ?thesis by blast
qed

section \<open>Retrying provider calls\<close>

text \<open>
  The run of the loop from attempt \<open>a\<close>: it ends at an attempt \<open>n\<close> between \<open>a\<close> and
  \<open>max a cap\<close>, every attempt before \<open>n\<close> raised an exception the predicate accepts, the
  result is that of attempt \<open>n\<close>, and a sleep was added after each earlier attempt.
\<close>

lemma retry_loop_run:
  "\<exists>n. retry_loop retry_on cap wait body a slept
          = (body n, n, slept @ map wait [a..<n])
       \<and> a \<le> n \<and> n \<le> max a cap
       \<and> (\<forall>i. a \<le> i \<and> i < n \<longrightarrow> (\<exists>e. body i = Raises e \<and> retry_on e))
       \<and> (case body n of Returns v \<Rightarrow> True | Raises e \<Rightarrow> \<not> retry_on e \<or> cap \<le> n)"
proof (induction retry_on cap wait body a slept rule: retry_loop.induct)
  case (1 retry_on cap wait body a slept)
  show ?case
  proof (cases "body a")
    case (Returns v)
    then show ?thesis
      by (intro exI [of _ a]) auto
  next
    case (Raises e)
    show ?thesis
    proof (cases "\<not> retry_on e \<or> cap \<le> a")
      case True
      with Raises show ?thesis
        by (intro exI [of _ a]) auto
    next
      case False
      with Raises "1.IH" [of e] obtain n where
        n: "retry_loop retry_on cap wait body (Suc a) (slept @ [wait a])
              = (body n, n, (slept @ [wait a]) @ map wait [Suc a..<n])"
          "Suc a \<le> n" "n \<le> max (Suc a) cap"
          "\<forall>i. Suc a \<le> i \<and> i < n \<longrightarrow> (\<exists>e. body i = Raises e \<and> retry_on e)"
          "case body n of Returns v \<Rightarrow> True | Raises e \<Rightarrow> \<not> retry_on e \<or> cap \<le> n"
        by auto
      have "retry_loop retry_on cap wait body a slept
              = retry_loop retry_on cap wait body (Suc a) (slept @ [wait a])"
        using Raises False by simp
      moreover have "(slept @ [wait a]) @ map wait [Suc a..<n] = slept @ map wait [a..<n]"
        using n(2) by (simp add: upt_conv_Cons)
      moreover have "\<forall>i. a \<le> i \<and> i < n \<longrightarrow> (\<exists>e. body i = Raises e \<and> retry_on e)"
      proof (intro allI impI)
        fix i assume i: "a \<le> i \<and> i < n"
        show "\<exists>e. body i = Raises e \<and> retry_on e"
        proof (cases "i = a")
          case True
          with Raises False show ?thesis by auto
        next
          case False
          with i n(4) show ?thesis by auto
        qed
      qed
      moreover have "a \<le> n" "n \<le> max a cap" using n(2,3) False by auto
      ultimately show ?thesis
        using n(1,5) by (intro exI [of _ n]) simp
    qed
  qed
qed

lemma wait_exponential_2_30:
  "wait_exponential 2 30 n = (if n \<le> 2 then 2 else if n \<le> 5 then 2 ^ (n - 1) else 30)"
proof -
  have "n \<le> 5 \<Longrightarrow> (2::nat) ^ (n - 1) \<le> 2 ^ 4"
    by (intro power_increasing) auto
  moreover have "5 < n \<Longrightarrow> (2::nat) ^ 5 \<le> 2 ^ (n - 1)"
    by (intro power_increasing) auto
  moreover have "2 < n \<Longrightarrow> (2::nat) ^ 2 \<le> 2 ^ (n - 1)"
    by (intro power_increasing) auto
  moreover have "n \<le> 2 \<Longrightarrow> (2::nat) ^ (n - 1) \<le> 2 ^ 1"
    by (intro power_increasing) auto
  ultimately show ?thesis
    by (auto simp: wait_exponential_def)
qed

text \<open>
  Claim C2, as amended. Every provider call (text-search page and place details)
  retries HTTP status errors, which include an error object in a text-search body, and
  connection errors, sleeping \<open>min(max(2^(n-1), 2), 30)\<close> seconds after attempt \<open>n\<close>, up
  to the configured attempt cap, after which the last exception is raised; every other
  exception, timeouts included, propagates from the attempt that raised it with no retry.
  So a call makes \<open>n\<close> attempts with \<open>1 \<le> n \<le> max(1, cap)\<close>, each attempt before the
  last raised an HTTP status error or a connection error, and the call ends with the
  last attempt's result, which is a return, an exception that is neither of the two, or
  the exception of attempt number \<open>cap\<close> or later.
\<close>

theorem provider_call_retries_status_and_connect_errors:
  "\<exists>n. provider_call cap body = (body n, n, map (wait_exponential 2 30) [1..<n])
       \<and> 1 \<le> n \<and> n \<le> max 1 cap
       \<and> (\<forall>i. 1 \<le> i \<and> i < n \<longrightarrow> body i = Raises HTTPStatusError \<or> body i = Raises ConnectError)
       \<and> (case body n of
             Returns v \<Rightarrow> True
           | Raises e \<Rightarrow> (e \<noteq> HTTPStatusError \<and> e \<noteq> ConnectError) \<or> cap \<le> n)
       \<and> (\<forall>k. wait_exponential 2 30 k = (if k \<le> 2 then 2 else if k \<le> 5 then 2 ^ (k - 1) else 30))
       \<and> text_search_page cap client_post
           = provider_call cap (\<lambda>n. text_search_page_attempt (client_post n))
       \<and> fst (get_place_details cap cache pid client_get)
           = provider_call cap (\<lambda>n. get_place_details_attempt cache pid (client_get n))"
proof -
  from retry_loop_run [of provider_retry_on cap "wait_exponential 2 30" body 1 "[]"]
  obtain n where n: "provider_call cap body = (body n, n, map (wait_exponential 2 30) [1..<n])"
    "1 \<le> n" "n \<le> max 1 cap"
    "\<forall>i. 1 \<le> i \<and> i < n \<longrightarrow> (\<exists>e. body i = Raises e \<and> provider_retry_on e)"
    "case body n of Returns v \<Rightarrow> True | Raises e \<Rightarrow> \<not> provider_retry_on e \<or> cap \<le> n"
    unfolding provider_call_def by auto
  from n(4) have a: "\<forall>i. 1 \<le> i \<and> i < n \<longrightarrow> body i = Raises HTTPStatusError \<or> body i = Raises ConnectError"
    by (auto simp: provider_retry_on_def)
  from n(5) have b: "case body n of
             Returns v \<Rightarrow> True
           | Raises e \<Rightarrow> (e \<noteq> HTTPStatusError \<and> e \<noteq> ConnectError) \<or> cap \<le> n"
    by (auto simp: provider_retry_on_def split: outcome.splits)
  have c: "text_search_page cap client_post
           = provider_call cap (\<lambda>n. text_search_page_attempt (client_post n))"
    by (simp add: text_search_page_def)
  have d: "fst (get_place_details cap cache pid client_get)
           = provider_call cap (\<lambda>n. get_place_details_attempt cache pid (client_get n))"
    by (simp add: get_place_details_def Let_def)
  from n(1,2,3) a b c d wait_exponential_2_30 show ?thesis by blast
qed

lemma retry_loop_unfold:
  "retry_loop retry_on cap wait body a slept =
     (case body a of
        Returns v \<Rightarrow> (Returns v, a, slept)
      | Raises e \<Rightarrow>
          if \<not> retry_on e then (Raises e, a, slept)
          else if a \<ge> cap then (Raises e, a, slept)
          else retry_loop retry_on cap wait body (Suc a) (slept @ [wait a]))"
  by (rule retry_loop.simps)

lemma text_search_connect_errors_then_page:
  "text_search_page 3 connect_errors_then_page = (Returns [raw_example ''a''], 3, [2, 2])"
  by (simp add: text_search_page_def provider_call_def retry_loop_unfold [of _ _ _ _ 1]
      retry_loop_unfold [of _ _ _ _ "Suc 1"] retry_loop_unfold [of _ _ _ _ "Suc (Suc 1)"]
      text_search_page_attempt_def connect_errors_then_page_def provider_retry_on_def
      wait_exponential_def)

text \<open>
  The amended claim C2 on a text search whose first two attempts fail to connect and
  whose third delivers a page: three attempts, two sleeps of two seconds.
\<close>

theorem provider_call_retries_status_and_connect_errors_witness:
  "text_search_page 3 connect_errors_then_page = (Returns [raw_example ''a''], 3, [2, 2])
   \<and> (\<exists>n. provider_call 3 (\<lambda>n. text_search_page_attempt (connect_errors_then_page n))
            = (text_search_page_attempt (connect_errors_then_page n), n,
               map (wait_exponential 2 30) [1..<n])
          \<and> 1 \<le> n \<and> n \<le> 3 \<and> n = 3)"
proof -
  from provider_call_retries_status_and_connect_errors
    [of 3 "\<lambda>n. text_search_page_attempt (connect_errors_then_page n)" connect_errors_then_page
        "{}" "''a''" details_status_error]
  obtain n where n: "provider_call 3 (\<lambda>n. text_search_page_attempt (connect_errors_then_page n))
            = (text_search_page_attempt (connect_errors_then_page n), n,
               map (wait_exponential 2 30) [1..<n])" "1 \<le> n" "n \<le> max 1 3"
    and t: "text_search_page 3 connect_errors_then_page
           = provider_call 3 (\<lambda>n. text_search_page_attempt (connect_errors_then_page n))"
    by blast
  from n(1) t text_search_connect_errors_then_page have "n = 3" by simp
  with n t text_search_connect_errors_then_page show ?thesis by auto
qed

text \<open>
  Claim C2 as stated fails: with a cap of three attempts a provider that answers every
  request with an HTTP error status is asked three times, and a read timeout propagates
  after the first attempt.
\<close>

theorem provider_call_retry_counterexample:
  "text_search_page 3 always_status_error = (Raises HTTPStatusError, 3, [2, 2])
   \<and> text_search_page 3 always_read_timeout = (Raises ReadTimeout, 1, [])
   \<and> fst (get_place_details 3 {} ''a'' details_status_error) = (Raises HTTPStatusError, 3, [2, 2])
   \<and> fst (get_place_details 3 {} ''a'' details_read_timeout) = (Raises ReadTimeout, 1, [])"
  by (simp add: text_search_page_def get_place_details_def provider_call_def
      retry_loop_unfold [of _ _ _ _ 1]
      retry_loop_unfold [of _ _ _ _ "Suc 1"] retry_loop_unfold [of _ _ _ _ "Suc (Suc 1)"]
      text_search_page_attempt_def get_place_details_attempt_def
      always_status_error_def always_read_timeout_def details_status_error_def
      details_read_timeout_def provider_retry_on_def wait_exponential_def Let_def)

section \<open>Enriching one place\<close>

lemma save_enrichment_commits: "commits (save_enrichment db i d ems) = commits db"
  by (simp add: save_enrichment_def)

lemma save_enrichment_has_row:
  "list_ex (\<lambda>r. pe_place_id r = i \<and> enrichment_error r = enrichment_error d)
     (enrichments (save_enrichment db i d ems))"
proof (cases "find (\<lambda>r. pe_place_id r = i) (enrichments db)")
  case None
  then show ?thesis
    by (simp add: save_enrichment_def new_enrichment_def list_ex_iff)
next
  case (Some existing)
  then have "existing \<in> set (enrichments db)" "pe_place_id existing = i"
    by (auto simp: find_Some_iff)
  then have "overwrite d existing
      \<in> set (map (\<lambda>r. if pe_place_id r = i then overwrite d r else r) (enrichments db))"
    by force
  moreover have "pe_place_id (overwrite d existing) = i"
    "enrichment_error (overwrite d existing) = enrichment_error d"
    using \<open>pe_place_id existing = i\<close> by (simp_all add: overwrite_def)
  ultimately show ?thesis
    using Some by (auto simp: save_enrichment_def list_ex_iff)
qed

text \<open>
  The robots branch: the row is upserted with the error text, the place is stamped,
  nothing is fetched through \<open>_fetch_page\<close>, and \<open>db.commit()\<close> is not called.
\<close>

lemma enrich_place_blocked:
  assumes "website p = Some site" "site \<noteq> []" "\<not> check_robots w site"
  shows "enrich_place w db p now =
           (save_enrichment db (id_col p)
              (empty_enrichment_data\<lparr>robots_txt_allows := Some False,
                 enrichment_error := Some ''Blocked by robots.txt''\<rparr>) [],
            p\<lparr>enriched_at := Some now\<rparr>, [])"
    and "commits (fst (enrich_place w db p now)) = commits db"
  using assms by (simp_all add: enrich_place_def Let_def save_enrichment_commits)

text \<open>Every other attempt on a listing with a website upserts, stamps and commits once.\<close>

lemma enrich_place_allowed:
  assumes "website p = Some site" "site \<noteq> []" "check_robots w site"
  shows "commits (fst (enrich_place w db p now)) = Suc (commits db)"
    and "enriched_at (fst (snd (enrich_place w db p now))) = Some now"
    and "list_ex (\<lambda>r. pe_place_id r = id_col p) (enrichments (fst (enrich_place w db p now)))"
proof -
  obtain d' all_emails fetched
    where c: "crawl w site (empty_enrichment_data\<lparr>robots_txt_allows := Some True\<rparr>)
                = (d', all_emails, fetched)"
    by (cases "crawl w site (empty_enrichment_data\<lparr>robots_txt_allows := Some True\<rparr>)") auto
  with assms have e: "enrich_place w db p now =
      (commit (save_enrichment db (id_col p) d' all_emails), p\<lparr>enriched_at := Some now\<rparr>, fetched)"
    by (simp add: enrich_place_def Let_def)
  show "commits (fst (enrich_place w db p now)) = Suc (commits db)"
    by (simp add: e commit_def save_enrichment_commits)
  show "enriched_at (fst (snd (enrich_place w db p now))) = Some now"
    by (simp add: e)
  from save_enrichment_has_row [of "id_col p" d' db all_emails]
  show "list_ex (\<lambda>r. pe_place_id r = id_col p) (enrichments (fst (enrich_place w db p now)))"
    by (auto simp: e commit_def list_ex_iff)
qed

text \<open>
  Claim C3 at a listing whose site refuses the bot in \<open>robots.txt\<close>: the enrichment
  row is upserted with \<open>enrichment_error = "Blocked by robots.txt"\<close>, the listing is
  stamped and no homepage fetch is made, but the session is not committed (the commit
  count stays 0), while the same listing on a site that allows the bot is committed.
\<close>

theorem enrich_place_blocked_not_committed:
  "\<not> check_robots blocking_web ''https://shop.ae''
   \<and> map enrichment_error (enrichments (fst (enrich_place blocking_web empty_session shop 7)))
       = [Some ''Blocked by robots.txt'']
   \<and> map pe_place_id (enrichments (fst (enrich_place blocking_web empty_session shop 7)))
       = [id_col shop]
   \<and> enriched_at (fst (snd (enrich_place blocking_web empty_session shop 7))) = Some 7
   \<and> snd (snd (enrich_place blocking_web empty_session shop 7)) = []
   \<and> commits (fst (enrich_place blocking_web empty_session shop 7)) = 0
   \<and> commits (fst (enrich_place open_web empty_session shop 7)) = 1"
proof -
  have w: "website shop = Some ''https://shop.ae''" "''https://shop.ae'' \<noteq> []"
    by (simp_all add: shop_def)
  have b: "\<not> check_robots blocking_web ''https://shop.ae''"
    by (simp add: check_robots_def blocking_web_def)
  have a: "check_robots open_web ''https://shop.ae''"
    by (simp add: check_robots_def open_web_def blocking_web_def)
  have i: "id_col shop = 1" by (simp add: shop_def example_place_def)
  note e = enrich_place_blocked(1) [OF w b, of empty_session 7]
  have "commits (fst (enrich_place open_web empty_session shop 7)) = 1"
    using enrich_place_allowed(1) [OF w a, of empty_session 7] by (simp add: empty_session_def)
  moreover have "commits (fst (enrich_place blocking_web empty_session shop 7)) = 0"
    using enrich_place_blocked(2) [OF w b, of empty_session 7] by (simp add: empty_session_def)
  moreover have "map enrichment_error (enrichments (fst (enrich_place blocking_web empty_session shop 7)))
       = [Some ''Blocked by robots.txt'']"
    unfolding e by (simp add: save_enrichment_def empty_session_def new_enrichment_def)
  moreover have "map pe_place_id (enrichments (fst (enrich_place blocking_web empty_session shop 7)))
       = [id_col shop]"
    unfolding e by (simp add: save_enrichment_def empty_session_def new_enrichment_def)
  moreover have "enriched_at (fst (snd (enrich_place blocking_web empty_session shop 7))) = Some 7"
    unfolding e by simp
  moreover have "snd (snd (enrich_place blocking_web empty_session shop 7)) = []"
    unfolding e by simp
  ultimately show ?thesis using b by blast
qed

section \<open>Upserting places\<close>

lemma select_None_iff: "(select_by_place_id db gp = None) = (gp \<notin> stored_ids db)"
  by (auto simp: select_by_place_id_def stored_ids_def find_None_iff)

lemma place_id_conflict_update: "place_id (conflict_update p now r) = place_id r"
  by (simp add: conflict_update_def)

lemma stored_ids_insert:
  "stored_ids (fst (insert_on_conflict_do_update db p now)) = insert (place_id p) (stored_ids db)"
proof (cases "select_by_place_id db (place_id p)")
  case None
  then show ?thesis
    by (simp add: insert_on_conflict_do_update_def stored_ids_def)
next
  case (Some existing)
  then have "place_id p \<in> stored_ids db"
    using select_None_iff [of db "place_id p"] by auto
  moreover have "map place_id (map (\<lambda>r. if place_id r = place_id p then conflict_update p now r else r)
                                   (place_rows db)) = map place_id (place_rows db)"
    by (simp add: place_id_conflict_update)
  then have "place_id ` set (map (\<lambda>r. if place_id r = place_id p then conflict_update p now r else r)
                                    (place_rows db)) = place_id ` set (place_rows db)"
    using arg_cong [of _ _ set] by (metis set_map)
  ultimately show ?thesis
    using Some by (auto simp: insert_on_conflict_do_update_def stored_ids_def)
qed

text \<open>A batch whose ids are all stored leaves the table as it is.\<close>

lemma upsert_loop_all_stored:
  assumes "\<forall>raw \<in> set raws. get_id raw \<noteq> [] \<longrightarrow> get_id raw \<in> stored_ids db"
  shows "fst (upsert_loop get_details query location now raws (db, places)) = db"
  using assms
proof (induction raws arbitrary: places)
  case Nil
  then show ?case by simp
next
  case (Cons raw rest)
  show ?case
  proof (cases "get_id raw = []")
    case True
    with Cons show ?thesis by simp
  next
    case False
    with Cons.prems have "get_id raw \<in> stored_ids db" by simp
    then obtain existing where "select_by_place_id db (get_id raw) = Some existing"
      using select_None_iff [of db "get_id raw"] by (cases "select_by_place_id db (get_id raw)") auto
    with False Cons show ?thesis by simp
  qed
qed

text \<open>After the loop every non-empty id of the batch is stored, and no stored id is lost.\<close>

lemma upsert_loop_stores:
  "stored_ids db \<union> {get_id raw | raw. raw \<in> set raws \<and> get_id raw \<noteq> []}
     \<subseteq> stored_ids (fst (upsert_loop get_details query location now raws (db, places)))"
proof (induction raws arbitrary: db places)
  case Nil
  then show ?case by simp
next
  case (Cons raw rest)
  show ?case
  proof (cases "get_id raw = []")
    case True
    with Cons [of db places] show ?thesis by auto
  next
    case False
    show ?thesis
    proof (cases "select_by_place_id db (get_id raw)")
      case (Some existing)
      then have "get_id raw \<in> stored_ids db"
        using select_None_iff [of db "get_id raw"] by auto
      with False Some Cons [of db "places @ [existing]"] show ?thesis by auto
    next
      case None
      define p where "p = new_place (get_id raw)
        (normalize_place (case get_details (get_id raw) of
                            Raises e \<Rightarrow> raw | Returns None \<Rightarrow> raw | Returns (Some fetched) \<Rightarrow> fetched))
        query location"
      obtain db' i where ins: "insert_on_conflict_do_update db p now = (db', i)"
        by (cases "insert_on_conflict_do_update db p now") auto
      have pid: "place_id p = get_id raw" by (simp add: p_def new_place_def)
      from stored_ids_insert [of db p now] ins pid
      have s: "stored_ids db' = insert (get_id raw) (stored_ids db)" by simp
      have "upsert_loop get_details query location now (raw # rest) (db, places)
          = upsert_loop get_details query location now rest (db', places @ [p\<lparr>id_col := i\<rparr>])"
        using False None ins by (simp add: p_def Let_def)
      with Cons [of db' "places @ [p\<lparr>id_col := i\<rparr>]"] s show ?thesis by auto
    qed
  qed
qed

lemma upsert_places_fst:
  "fst (upsert_places get_details db raws query location now)
     = fst (upsert_loop get_details query location now raws (db, []))"
  by (simp add: upsert_places_def split: prod.splits)

lemma upsert_places_idempotent:
  "fst (upsert_places get_details' (fst (upsert_places get_details db raws query location now))
          raws query' location' now')
     = fst (upsert_places get_details db raws query location now)"
proof -
  define db1 where "db1 = fst (upsert_loop get_details query location now raws (db, []))"
  have "\<forall>raw \<in> set raws. get_id raw \<noteq> [] \<longrightarrow> get_id raw \<in> stored_ids db1"
    using upsert_loop_stores [of db raws get_details query location now "[]"]
    unfolding db1_def by blast
  from upsert_loop_all_stored [OF this] show ?thesis
    by (simp add: upsert_places_fst db1_def)
qed

lemma upsert_places_stored_unchanged:
  assumes "select_by_place_id db (get_id raw) = Some row"
  shows "fst (upsert_places get_details db [raw] query location now) = db"
proof -
  from assms have "get_id raw \<in> stored_ids db"
    using select_None_iff [of db "get_id raw"] by auto
  then have "\<forall>r \<in> set [raw]. get_id r \<noteq> [] \<longrightarrow> get_id r \<in> stored_ids db" by simp
  from upsert_loop_all_stored [OF this] show ?thesis
    by (simp only: upsert_places_fst)
qed

lemma find_map_same_key:
  assumes "\<And>r. key (f r) = key r"
  shows "find (\<lambda>r. key r = k) (map f rows) = map_option f (find (\<lambda>r. key r = k) rows)"
  by (induction rows) (simp_all add: assms)

text \<open>
  The \<open>ON CONFLICT\<close> branch of the statement: no row is added, and the stored row
  changes in the fields of \<open>set_\<close> only.
\<close>

lemma on_conflict_updates_in_place:
  assumes "select_by_place_id db (place_id p) = Some row"
  shows "length (place_rows (fst (insert_on_conflict_do_update db p now))) = length (place_rows db)"
    and "select_by_place_id (fst (insert_on_conflict_do_update db p now)) (place_id p)
           = Some (conflict_update p now row)"
proof -
  let ?f = "\<lambda>r. if place_id r = place_id p then conflict_update p now r else r"
  have db': "fst (insert_on_conflict_do_update db p now) = db\<lparr>place_rows := map ?f (place_rows db)\<rparr>"
    using assms by (simp add: insert_on_conflict_do_update_def)
  show "length (place_rows (fst (insert_on_conflict_do_update db p now))) = length (place_rows db)"
    by (simp add: db')
  have k: "\<And>r. place_id (?f r) = place_id r"
    by (simp add: place_id_conflict_update)
  from assms have "place_id row = place_id p"
    by (auto simp: select_by_place_id_def find_Some_iff)
  then have "?f row = conflict_update p now row" by simp
  with assms find_map_same_key [of place_id ?f "place_id p" "place_rows db", OF k]
  show "select_by_place_id (fst (insert_on_conflict_do_update db p now)) (place_id p)
           = Some (conflict_update p now row)"
    by (simp add: db' select_by_place_id_def)
qed

lemma conflict_update_keeps:
  "created_at (conflict_update p now row) = created_at row
   \<and> id_col (conflict_update p now row) = id_col row
   \<and> place_id (conflict_update p now row) = place_id row
   \<and> search_query (conflict_update p now row) = search_query row
   \<and> search_location (conflict_update p now row) = search_location row
   \<and> classification (conflict_update p now row) = classification row
   \<and> classification_confidence (conflict_update p now row) = classification_confidence row
   \<and> location_score (conflict_update p now row) = location_score row
   \<and> competitor_density (conflict_update p now row) = competitor_density row
   \<and> enriched_at (conflict_update p now row) = enriched_at row"
  by (simp add: conflict_update_def)

text \<open>
  Claim C6, as amended. Ingesting a raw record whose external id already has a stored
  listing creates no second row for that id and leaves the stored row as it is, its
  creation timestamp included: the lookup finds the row and the loop reuses it, so no
  field is updated, neither the name, address or rating nor the update timestamp.
  Ingesting a batch a second time, whatever the provider then delivers, leaves the table
  as the first ingestion left it. Only where the upsert statement itself meets a stored
  id, which the loop's lookup prevents, does it update the mutable fields and the update
  timestamp, and nothing else: no row is added, and the creation timestamp, the ids and
  the search provenance stay.
\<close>

theorem upsert_places_idempotent_no_second_row:
  "(select_by_place_id db (get_id raw) = Some row \<longrightarrow>
      fst (upsert_places get_details db [raw] query location now) = db
      \<and> length (filter (\<lambda>r. place_id r = get_id raw)
                  (place_rows (fst (upsert_places get_details db [raw] query location now))))
          = length (filter (\<lambda>r. place_id r = get_id raw) (place_rows db))
      \<and> map_option created_at
          (select_by_place_id (fst (upsert_places get_details db [raw] query location now)) (get_id raw))
          = Some (created_at row))
   \<and> fst (upsert_places get_details' (fst (upsert_places get_details db raws query location now))
            raws query' location' now')
       = fst (upsert_places get_details db raws query location now)
   \<and> (select_by_place_id db (place_id p) = Some row \<longrightarrow>
        length (place_rows (fst (insert_on_conflict_do_update db p now))) = length (place_rows db)
        \<and> select_by_place_id (fst (insert_on_conflict_do_update db p now)) (place_id p)
            = Some (conflict_update p now row)
        \<and> created_at (conflict_update p now row) = created_at row
        \<and> id_col (conflict_update p now row) = id_col row
        \<and> place_id (conflict_update p now row) = place_id row
        \<and> search_query (conflict_update p now row) = search_query row
        \<and> search_location (conflict_update p now row) = search_location row
        \<and> updated_at (conflict_update p now row) = Some now)"
proof -
  have a: "select_by_place_id db (get_id raw) = Some row \<Longrightarrow>
      fst (upsert_places get_details db [raw] query location now) = db"
    by (rule upsert_places_stored_unchanged)
  have u: "updated_at (conflict_update p now row) = Some now"
    by (simp add: conflict_update_def)
  show ?thesis
    using a upsert_places_idempotent [of get_details' get_details db raws query location now query' location' now']
      on_conflict_updates_in_place [of db p row now] conflict_update_keeps [of p now row] u
    by auto
qed

text \<open>
  The amended claim C6 on a table holding the listing \<open>p1\<close>, created at time 10 under
  the name \<open>Old Name\<close>: ingesting \<open>p1\<close> again at time 20 leaves the one row as it was.
\<close>

theorem upsert_places_idempotent_no_second_row_witness:
  "select_by_place_id one_place_db (get_id (raw_example ''p1'')) = Some stored_place
   \<and> fst (upsert_places details_delivered one_place_db [raw_example ''p1''] ''bakeries'' None 20)
       = one_place_db
   \<and> place_rows (fst (upsert_places details_delivered one_place_db [raw_example ''p1''] ''bakeries'' None 20))
       = [stored_place]
   \<and> created_at stored_place = Some 10
   \<and> select_by_place_id one_place_db (place_id (new_place ''p1'' (normalize_place (raw_example ''p1'')) ''bakeries'' None))
       = Some stored_place
   \<and> created_at (conflict_update (new_place ''p1'' (normalize_place (raw_example ''p1'')) ''bakeries'' None) 20 stored_place)
       = Some 10"
proof -
  have s: "select_by_place_id one_place_db (get_id (raw_example ''p1'')) = Some stored_place"
    by (simp add: select_by_place_id_def one_place_db_def get_id_def raw_example_def stored_place_def)
  have s': "select_by_place_id one_place_db (place_id (new_place ''p1'' (normalize_place (raw_example ''p1'')) ''bakeries'' None))
       = Some stored_place"
    by (simp add: select_by_place_id_def one_place_db_def new_place_def stored_place_def)
  have c: "created_at stored_place = Some 10" by (simp add: stored_place_def)
  note t = upsert_places_idempotent_no_second_row
    [of one_place_db "raw_example ''p1''" stored_place details_delivered "''bakeries''" None 20
        details_delivered "[]" "''bakeries''" None 20
        "new_place ''p1'' (normalize_place (raw_example ''p1'')) ''bakeries'' None"]
  from t s have d: "fst (upsert_places details_delivered one_place_db [raw_example ''p1''] ''bakeries'' None 20)
       = one_place_db" by blast
  from t s' have "created_at (conflict_update (new_place ''p1'' (normalize_place (raw_example ''p1'')) ''bakeries'' None) 20 stored_place)
       = created_at stored_place" by blast
  with s s' c d show ?thesis by (simp add: one_place_db_def)
qed

text \<open>
  Claim C6 as stated fails where it has the second ingestion update the mutable fields
  and the update timestamp: the provider delivers \<open>p1\<close> under the name \<open>New Name\<close> at
  time 20, and the stored row keeps the name \<open>Old Name\<close> and the update timestamp 10.
\<close>

theorem upsert_places_no_refresh_counterexample:
  "d_name (normalize_place (raw_example ''p1'')) = ''New Name''
   \<and> details_delivered ''p1'' = Returns (Some (raw_example ''p1''))
   \<and> map name (place_rows (fst (upsert_places details_delivered one_place_db
                                    [raw_example ''p1''] ''bakeries'' None 20)))
       = [Some ''Old Name'']
   \<and> map updated_at (place_rows (fst (upsert_places details_delivered one_place_db
                                          [raw_example ''p1''] ''bakeries'' None 20)))
       = [Some 10]"
proof -
  have s: "select_by_place_id one_place_db (get_id (raw_example ''p1'')) = Some stored_place"
    by (simp add: select_by_place_id_def one_place_db_def get_id_def raw_example_def stored_place_def)
  have n: "d_name (normalize_place (raw_example ''p1'')) = ''New Name''"
    by (simp add: normalize_place_def raw_example_def)
  have r: "map name (place_rows one_place_db) = [Some ''Old Name'']"
    "map updated_at (place_rows one_place_db) = [Some 10]"
    by (simp_all add: one_place_db_def stored_place_def)
  show ?thesis
    unfolding upsert_places_stored_unchanged [OF s]
    using n r by (simp add: details_delivered_def)
qed

end
